theory Spec2Isabelle
  imports Main
begin

section \<open>The feature flag provider of vscode/src/commands/services/provider.ts\<close>

text \<open>
  The class \<open>FeatureFlagProvider\<close> caches remotely evaluated boolean flags per endpoint.
  Its two asynchronous methods suspend at one \<open>await\<close> each. A method with an
  \<open>await\<close> is embedded as two functions: \<open>m_call\<close>, the synchronous prefix that
  runs when the method is called (up to and including the call of the API client), and
  \<open>m_resume\<close>, the continuation that runs when the awaited promise settles, applied to
  the locals captured before the \<open>await\<close> and to the way the promise settled.
\<close>

subsection \<open>Data\<close>

text \<open>The enum \<open>FeatureFlag\<close> and the string value of each member.\<close>

datatype FeatureFlag =
    TestFlagDoNotUse
  | CodyAutocompleteTracing
  | CodyAutocompleteStarCoderHybrid
  | CodyAutocompleteStarCoder16B
  | CodyAutocompleteLlamaCode13B
  | CodyAutocompleteContextBfgMixed
  | CodyAutocompleteContextNewJaccardSimilarity
  | CodyAutocompleteUserLatency
  | CodyAutocompleteDynamicMultilineCompletions
  | CodyAutocompleteEagerCancellation
  | CodyAutocompleteHotStreak
  | CodyAutocompleteFastPath
  | CodyAutocompleteSingleMultilineRequest
  | CodyProJetBrains
  | UseSscForCodySubscription
  | CodyProTrialEnded
  | CodyChatMockTest
  | CodyCommandHints

fun flagValue :: "FeatureFlag \<Rightarrow> string" where
  "flagValue TestFlagDoNotUse = ''test-flag-do-not-use''"
| "flagValue CodyAutocompleteTracing = ''cody-autocomplete-tracing''"
| "flagValue CodyAutocompleteStarCoderHybrid = ''cody-autocomplete-default-starcoder-hybrid''"
| "flagValue CodyAutocompleteStarCoder16B = ''cody-autocomplete-default-starcoder-16b''"
| "flagValue CodyAutocompleteLlamaCode13B = ''cody-autocomplete-llama-code-13b''"
| "flagValue CodyAutocompleteContextBfgMixed = ''cody-autocomplete-context-bfg-mixed''"
| "flagValue CodyAutocompleteContextNewJaccardSimilarity = ''cody-autocomplete-new-jaccard-similarity''"
| "flagValue CodyAutocompleteUserLatency = ''cody-autocomplete-user-latency''"
| "flagValue CodyAutocompleteDynamicMultilineCompletions = ''cody-autocomplete-dynamic-multiline-completions''"
| "flagValue CodyAutocompleteEagerCancellation = ''cody-autocomplete-eager-cancellation''"
| "flagValue CodyAutocompleteHotStreak = ''cody-autocomplete-hot-streak''"
| "flagValue CodyAutocompleteFastPath = ''cody-autocomplete-fast-path''"
| "flagValue CodyAutocompleteSingleMultilineRequest = ''cody-autocomplete-single-multiline-request''"
| "flagValue CodyProJetBrains = ''cody-pro-jetbrains''"
| "flagValue UseSscForCodySubscription = ''use-ssc-for-cody-subscription''"
| "flagValue CodyProTrialEnded = ''cody-pro-trial-ended''"
| "flagValue CodyChatMockTest = ''cody-chat-mock-test''"
| "flagValue CodyCommandHints = ''cody-command-hints''"

definition ONE_HOUR :: int where
  "ONE_HOUR = 60 * 60 * 1000"

text \<open>\<open>Record<string, boolean>\<close>: the flags of one endpoint, by flag name.\<close>

type_synonym flagRecord = "string \<rightharpoonup> bool"

text \<open>
  Modelled from the spec: the API client (imported from ../sourcegraph-api/graphql, not
  part of the sources at hand). Its promises are fulfilled with
  \<open>boolean | null | Error\<close> for \<open>evaluateFeatureFlag\<close> and with
  \<open>Record<string, boolean> | Error\<close> for \<open>getEvaluatedFeatureFlags\<close>, or rejected.
  An \<open>Error\<close> carries its message. The record of a bulk fetch is a plain object whose
  own properties are the fetched flags; every fetch delivers an object of its own.
\<close>

datatype evaluated = Bool bool | Null | EvalError string

datatype evaluatedAll = Flags flagRecord | FetchError string

text \<open>How a promise settles: fulfilled with a value, or rejected with a thrown error.\<close>

datatype 'a settled = Fulfilled 'a | Rejected string

text \<open>The calls made on the API client, in the order they are made.\<close>

datatype request = EvaluateFeatureFlag FeatureFlag | GetEvaluatedFeatureFlags

text \<open>
  A continuation suspended at an \<open>await\<close>, with the locals it captured:
  \<open>endpoint\<close> and \<open>flagName\<close> in \<open>evaluateFeatureFlag\<close>, \<open>endpoint\<close> in
  \<open>refreshFeatureFlags\<close>.
\<close>

datatype task = AwaitEvaluate string FeatureFlag | AwaitRefresh string

text \<open>
  \<open>this.featureFlags\<close> is a plain JavaScript object, and so is every record in it. A
  plain object has own properties and a prototype, \<open>Object.prototype\<close> unless it is
  changed; a property that is not an own property is looked up along the prototype
  chain. The values that \<open>this.featureFlags[endpoint]\<close> can have are therefore:
  undefined; a record (a plain object holding flags); \<open>Object.prototype\<close> itself
  (through its accessor \<open>__proto__\<close>); one of the built-in functions that
  \<open>Object.prototype\<close> holds (\<open>constructor\<close>, \<open>toString\<close>, ...); or a boolean, when the
  key is inherited from a record that has become the prototype of the table, or from a
  flag that was written onto \<open>Object.prototype\<close>.
\<close>

datatype jsValue =
    Undefined
  | Boolean bool
  | Record flagRecord
  | ObjectPrototype
  | BuiltinFunction string

text \<open>The members of \<open>Object.prototype\<close> that are functions; \<open>__proto__\<close> is an accessor.\<close>

definition functionMembers :: "string list" where
  "functionMembers =
     [''constructor'', ''__defineGetter__'', ''__defineSetter__'', ''hasOwnProperty'',
      ''__lookupGetter__'', ''__lookupSetter__'', ''isPrototypeOf'', ''propertyIsEnumerable'',
      ''toString'', ''valueOf'', ''toLocaleString'']"

text \<open>
  The provider's two fields, and what the methods read from outside:
  \<open>this.apiClient.endpoint\<close>, \<open>Date.now()\<close> and
  \<open>process.env.BENCHMARK_DISABLE_FEATURE_FLAGS\<close> (a string, or undefined).

  \<open>featureFlags\<close> holds the own properties of the object \<open>this.featureFlags\<close>, and
  \<open>tablePrototype\<close> its prototype: \<open>None\<close> for \<open>Object.prototype\<close>, \<open>Some d\<close> when an
  assignment to the key \<open>__proto__\<close> has made the record \<open>d\<close> the prototype.
  \<open>objectPrototype\<close> holds the flags that writes of the provider have put on
  \<open>Object.prototype\<close>, and \<open>functionFlags\<close> those put on its built-in functions, by
  member name; both outlive the table. Records have the prototype \<open>Object.prototype\<close>.

  \<open>requests\<close> logs the calls made on the API client; \<open>suspended\<close> holds the
  continuations that wait for a promise of the API client.
\<close>

record provider =
  featureFlags :: "string \<rightharpoonup> flagRecord"
  tablePrototype :: "flagRecord option"
  objectPrototype :: flagRecord
  functionFlags :: "string \<Rightarrow> flagRecord"
  lastUpdated :: int
  endpoint :: string
  now :: int
  BENCHMARK_DISABLE_FEATURE_FLAGS :: "string option"
  requests :: "request list"
  suspended :: "task list"

text \<open>The provider as the constructor leaves it, with nothing written on the built-ins.\<close>

definition newProvider :: "string \<Rightarrow> int \<Rightarrow> string option \<Rightarrow> provider" where
  "newProvider ep t env =
     \<lparr> featureFlags = Map.empty, tablePrototype = None, objectPrototype = Map.empty,
       functionFlags = (\<lambda>f. Map.empty), lastUpdated = 0, endpoint = ep, now = t,
       BENCHMARK_DISABLE_FEATURE_FLAGS = env, requests = [], suspended = [] \<rparr>"

subsection \<open>Helpers that are imported by the source\<close>

text \<open>
  Modelled from the spec: \<open>isError\<close> (imported from ../utils, not part of the sources
  at hand) tells an \<open>Error\<close> value from the other results of the API client.
\<close>

fun isError_evaluated :: "evaluated \<Rightarrow> bool" where
  "isError_evaluated (EvalError _) = True"
| "isError_evaluated _ = False"

fun isError_evaluatedAll :: "evaluatedAll \<Rightarrow> bool" where
  "isError_evaluatedAll (FetchError _) = True"
| "isError_evaluatedAll _ = False"

text \<open>
  Modelled from the spec: \<open>wrapInActiveSpan\<close> (imported from ../tracing, not part of
  the sources at hand) runs the operation inside a named span and passes its return
  value and its error through unchanged.
\<close>

definition wrapInActiveSpan :: "string \<Rightarrow> 'a \<Rightarrow> 'a" where
  "wrapInActiveSpan name operation = operation"

text \<open>
  JavaScript truthiness of \<open>process.env.BENCHMARK_DISABLE_FEATURE_FLAGS\<close>: an unset
  variable is undefined, and the empty string is falsy as well.
\<close>

definition killSwitch :: "provider \<Rightarrow> bool" where
  "killSwitch s =
     (case BENCHMARK_DISABLE_FEATURE_FLAGS s of None \<Rightarrow> False | Some v \<Rightarrow> v \<noteq> [])"

subsection \<open>Property access on the table\<close>

text \<open>
  The key \<open>e\<close> looked up on \<open>Object.prototype\<close>, for the table as receiver: the getter
  of \<open>__proto__\<close> returns the prototype of the table, a function member is returned as
  it is, and any other key is found only if a flag of that name was written onto
  \<open>Object.prototype\<close>.
\<close>

definition inherited :: "provider \<Rightarrow> string \<Rightarrow> jsValue" where
  "inherited s e =
     (if e = ''__proto__''
      then (case tablePrototype s of None \<Rightarrow> ObjectPrototype | Some d \<Rightarrow> Record d)
      else if e \<in> set functionMembers then BuiltinFunction e
      else (case objectPrototype s e of None \<Rightarrow> Undefined | Some b \<Rightarrow> Boolean b))"

text \<open>
  \<open>this.featureFlags[e]\<close>: an own property first, then the own properties of the
  table's prototype when that is a record, then \<open>Object.prototype\<close>.
\<close>

definition tableGet :: "provider \<Rightarrow> string \<Rightarrow> jsValue" where
  "tableGet s e =
     (case featureFlags s e of
        Some r \<Rightarrow> Record r
      | None \<Rightarrow>
          (case tablePrototype s of
             None \<Rightarrow> inherited s e
           | Some d \<Rightarrow> (case d e of Some b \<Rightarrow> Boolean b | None \<Rightarrow> inherited s e)))"

definition truthy :: "jsValue \<Rightarrow> bool" where
  "truthy x = (case x of Undefined \<Rightarrow> False | Boolean b \<Rightarrow> b | _ \<Rightarrow> True)"

text \<open>
  \<open>x?.[flagName]\<close> for a flag name of the enum (no built-in has a property of such
  a name): undefined when \<open>x\<close> is undefined; otherwise the own property of \<open>x\<close>, and
  failing that what \<open>Object.prototype\<close> holds under that name, which every object and
  every boolean inherits.
\<close>

definition readFlag :: "provider \<Rightarrow> jsValue \<Rightarrow> string \<Rightarrow> bool option" where
  "readFlag s x name =
     (case x of
        Undefined \<Rightarrow> None
      | Boolean b \<Rightarrow> objectPrototype s name
      | Record r \<Rightarrow> (case r name of Some v \<Rightarrow> Some v | None \<Rightarrow> objectPrototype s name)
      | ObjectPrototype \<Rightarrow> objectPrototype s name
      | BuiltinFunction f \<Rightarrow>
          (case functionFlags s f name of
             Some v \<Rightarrow> Some v
           | None \<Rightarrow> objectPrototype s name))"

text \<open>\<open>this.featureFlags[endpoint]?.[flagName]\<close>\<close>

definition lookupFlag :: "provider \<Rightarrow> string \<Rightarrow> string \<Rightarrow> bool option" where
  "lookupFlag s ep name = readFlag s (tableGet s ep) name"

text \<open>
  \<open>this.featureFlags[e] = r\<close> for a record \<open>r\<close>. The assignment makes or overwrites an
  own property, except for the key \<open>__proto__\<close> when it reaches the setter of
  \<open>Object.prototype\<close> (no own property of that name in the table or in the record that
  is its prototype): the setter makes \<open>r\<close> the prototype of the table.
\<close>

definition tableSet :: "provider \<Rightarrow> string \<Rightarrow> flagRecord \<Rightarrow> provider" where
  "tableSet s e r =
     (if e = ''__proto__'' \<and> featureFlags s e = None
          \<and> (case tablePrototype s of None \<Rightarrow> True | Some d \<Rightarrow> d e = None)
      then s\<lparr>tablePrototype := Some r\<rparr>
      else s\<lparr>featureFlags := (featureFlags s)(e \<mapsto> r)\<rparr>)"

text \<open>
  The message of the error that strict code throws when a property is assigned on a
  boolean or on undefined.
\<close>

definition typeError :: string where
  "typeError = ''TypeError''"

text \<open>
  \<open>this.featureFlags[e][name] = v\<close>: the flag becomes an own property of whatever
  \<open>this.featureFlags[e]\<close> is: a record of the table, the record that is the table's
  prototype, \<open>Object.prototype\<close>, or a built-in function. On a boolean the assignment
  throws (class bodies are strict code). \<open>Inl\<close> is the error thrown.
\<close>

definition writeFlag :: "provider \<Rightarrow> string \<Rightarrow> string \<Rightarrow> bool \<Rightarrow> string + provider" where
  "writeFlag s e name v =
     (case featureFlags s e of
        Some r \<Rightarrow> Inr (s\<lparr>featureFlags := (featureFlags s)(e \<mapsto> r(name \<mapsto> v))\<rparr>)
      | None \<Rightarrow>
          (case tableGet s e of
             Record d \<Rightarrow> Inr (s\<lparr>tablePrototype := Some (d(name \<mapsto> v))\<rparr>)
           | ObjectPrototype \<Rightarrow> Inr (s\<lparr>objectPrototype := (objectPrototype s)(name \<mapsto> v)\<rparr>)
           | BuiltinFunction f \<Rightarrow>
               Inr (s\<lparr>functionFlags := (functionFlags s)(f := (functionFlags s f)(name \<mapsto> v))\<rparr>)
           | Boolean b \<Rightarrow> Inl typeError
           | Undefined \<Rightarrow> Inl typeError))"

subsection \<open>The methods\<close>

text \<open>
  \<open>refreshFeatureFlags\<close> up to its \<open>await\<close>: it captures the endpoint and calls
  \<open>getEvaluatedFeatureFlags\<close>. The result is the captured endpoint.
\<close>

definition refreshFeatureFlags_call :: "provider \<Rightarrow> string \<times> provider" where
  "refreshFeatureFlags_call s =
     wrapInActiveSpan ''FeatureFlagProvider.refreshFeatureFlags''
       (endpoint s, s\<lparr>requests := requests s @ [GetEvaluatedFeatureFlags]\<rparr>)"

text \<open>
  \<open>refreshFeatureFlags\<close> after its \<open>await\<close>. A rejected promise throws at the
  \<open>await\<close>: the two assignments are skipped and the method's promise is rejected.
\<close>

definition refreshFeatureFlags_resume ::
    "string \<Rightarrow> evaluatedAll settled \<Rightarrow> provider \<Rightarrow> unit settled \<times> provider" where
  "refreshFeatureFlags_resume ep reply s =
     (case reply of
        Rejected e \<Rightarrow> (Rejected e, s)
      | Fulfilled data \<Rightarrow>
          (Fulfilled (),
           (tableSet s ep
              (if isError_evaluatedAll data then Map.empty
               else (case data of Flags r \<Rightarrow> r | FetchError _ \<Rightarrow> Map.empty)))
             \<lparr>lastUpdated := now s\<rparr>))"

text \<open>
  \<open>void this.refreshFeatureFlags()\<close>: the method is called and its promise dropped; the
  continuation stays suspended until the API client answers.
\<close>

definition spawnRefresh :: "provider \<Rightarrow> provider" where
  "spawnRefresh s =
     (let (ep, s1) = refreshFeatureFlags_call s
      in s1\<lparr>suspended := suspended s1 @ [AwaitRefresh ep]\<rparr>)"

definition getFromCache :: "FeatureFlag \<Rightarrow> string \<Rightarrow> provider \<Rightarrow> bool option \<times> provider" where
  "getFromCache flagName ep s =
     (let s1 = (if now s - lastUpdated s > ONE_HOUR then spawnRefresh s else s)
      in (lookupFlag s1 ep (flagValue flagName), s1))"

text \<open>The default argument \<open>endpoint = this.apiClient.endpoint\<close>.\<close>

definition getFromCache_default :: "FeatureFlag \<Rightarrow> provider \<Rightarrow> bool option \<times> provider" where
  "getFromCache_default flagName s = getFromCache flagName (endpoint s) s"

text \<open>\<open>this.featureFlags[endpoint] || {}\<close>: the value itself unless it is falsy.\<close>

definition getExposedExperiments :: "string \<Rightarrow> provider \<Rightarrow> jsValue" where
  "getExposedExperiments ep s =
     (if truthy (tableGet s ep) then tableGet s ep else Record Map.empty)"

text \<open>
  \<open>evaluateFeatureFlag\<close> up to its \<open>await\<close>. \<open>Inl v\<close>: the method returned \<open>v\<close>
  without awaiting. \<open>Inr ep\<close>: it called the API client and waits, having captured
  the endpoint \<open>ep\<close>.
\<close>

definition evaluateFeatureFlag_call ::
    "FeatureFlag \<Rightarrow> provider \<Rightarrow> (bool + string) \<times> provider" where
  "evaluateFeatureFlag_call flagName s =
     wrapInActiveSpan (''FeatureFlagProvider.evaluateFeatureFlag.'' @ flagValue flagName)
       (let ep = endpoint s in
        if killSwitch s then (Inl False, s)
        else
          (let (cachedValue, s1) = getFromCache flagName ep s in
           case cachedValue of
             Some v \<Rightarrow> (Inl v, s1)
           | None \<Rightarrow> (Inr ep, s1\<lparr>requests := requests s1 @ [EvaluateFeatureFlag flagName]\<rparr>)))"

text \<open>
  \<open>evaluateFeatureFlag\<close> after its \<open>await\<close>. A rejected promise throws at the
  \<open>await\<close>; nothing catches it. Otherwise an empty record is assigned under the
  endpoint when \<open>this.featureFlags[endpoint]\<close> is falsy, the flag is written on
  \<open>this.featureFlags[endpoint]\<close>, and the property just written is read back and
  returned (it is the value written, see \<open>evaluateFeatureFlag_resume_reads_back\<close>).
\<close>

definition evaluateFeatureFlag_resume ::
    "string \<Rightarrow> FeatureFlag \<Rightarrow> evaluated settled \<Rightarrow> provider \<Rightarrow> bool settled \<times> provider" where
  "evaluateFeatureFlag_resume ep flagName reply s =
     (case reply of
        Rejected e \<Rightarrow> (Rejected e, s)
      | Fulfilled value \<Rightarrow>
          (let s1 = (if \<not> truthy (tableGet s ep) then tableSet s ep Map.empty else s);
               v = (if value = Null \<or> isError_evaluated value then False
                    else (case value of Bool b \<Rightarrow> b | _ \<Rightarrow> False))
           in (case writeFlag s1 ep (flagValue flagName) v of
                 Inl err \<Rightarrow> (Rejected err, s1)
               | Inr s2 \<Rightarrow> (Fulfilled v, s2))))"

text \<open>
  \<open>syncAuthStatus\<close> up to its \<open>await\<close>: the table is replaced by a new empty object
  (whose prototype is \<open>Object.prototype\<close>), then \<open>refreshFeatureFlags\<close> is called. Its
  continuation is that of the refresh.
\<close>

definition syncAuthStatus_call :: "provider \<Rightarrow> string \<times> provider" where
  "syncAuthStatus_call s =
     refreshFeatureFlags_call (s\<lparr>featureFlags := Map.empty, tablePrototype := None\<rparr>)"

subsection \<open>A method awaited with nothing else running in between\<close>

definition evaluateFeatureFlag ::
    "FeatureFlag \<Rightarrow> evaluated settled \<Rightarrow> provider \<Rightarrow> bool settled \<times> provider" where
  "evaluateFeatureFlag flagName reply s =
     (case evaluateFeatureFlag_call flagName s of
        (Inl v, s1) \<Rightarrow> (Fulfilled v, s1)
      | (Inr ep, s1) \<Rightarrow> evaluateFeatureFlag_resume ep flagName reply s1)"

definition refreshFeatureFlags :: "evaluatedAll settled \<Rightarrow> provider \<Rightarrow> unit settled \<times> provider" where
  "refreshFeatureFlags reply s =
     (let (ep, s1) = refreshFeatureFlags_call s in refreshFeatureFlags_resume ep reply s1)"

definition syncAuthStatus :: "evaluatedAll settled \<Rightarrow> provider \<Rightarrow> unit settled \<times> provider" where
  "syncAuthStatus reply s =
     (let (ep, s1) = syncAuthStatus_call s in refreshFeatureFlags_resume ep reply s1)"

subsection \<open>Interleaved execution\<close>

text \<open>
  JavaScript runs one continuation at a time. Between two of them anything may happen:
  a method is called, a promise of the API client settles and its continuation runs,
  the endpoint of the API client is changed, time passes.
\<close>

datatype event =
    CallGetFromCache FeatureFlag "string option"
  | CallEvaluateFeatureFlag FeatureFlag
  | CallSyncAuthStatus
  | SettleEvaluate nat "evaluated settled"
  | SettleRefresh nat "evaluatedAll settled"
  | SetEndpoint string
  | Tick nat

definition unsuspend :: "nat \<Rightarrow> provider \<Rightarrow> provider" where
  "unsuspend i s = s\<lparr>suspended := take i (suspended s) @ drop (Suc i) (suspended s)\<rparr>"

text \<open>The task at position \<open>i\<close> of the suspended continuations, if there is one.\<close>

definition taskAt :: "nat \<Rightarrow> provider \<Rightarrow> task option" where
  "taskAt i s = (if i < length (suspended s) then Some (suspended s ! i) else None)"

fun step :: "event \<Rightarrow> provider \<Rightarrow> provider" where
  "step (CallGetFromCache flagName None) s = snd (getFromCache_default flagName s)"
| "step (CallGetFromCache flagName (Some ep)) s = snd (getFromCache flagName ep s)"
| "step (CallEvaluateFeatureFlag flagName) s =
     (case evaluateFeatureFlag_call flagName s of
        (Inl v, s1) \<Rightarrow> s1
      | (Inr ep, s1) \<Rightarrow> s1\<lparr>suspended := suspended s1 @ [AwaitEvaluate ep flagName]\<rparr>)"
| "step CallSyncAuthStatus s =
     (let (ep, s1) = syncAuthStatus_call s
      in s1\<lparr>suspended := suspended s1 @ [AwaitRefresh ep]\<rparr>)"
| "step (SettleEvaluate i reply) s =
     (case taskAt i s of
        Some (AwaitEvaluate ep flagName) \<Rightarrow>
          snd (evaluateFeatureFlag_resume ep flagName reply (unsuspend i s))
      | _ \<Rightarrow> s)"
| "step (SettleRefresh i reply) s =
     (case taskAt i s of
        Some (AwaitRefresh ep) \<Rightarrow> snd (refreshFeatureFlags_resume ep reply (unsuspend i s))
      | _ \<Rightarrow> s)"
| "step (SetEndpoint ep) s = s\<lparr>endpoint := ep\<rparr>"
| "step (Tick n) s = s\<lparr>now := now s + int n\<rparr>"

fun run :: "event list \<Rightarrow> provider \<Rightarrow> provider" where
  "run [] s = s"
| "run (ev # evs) s = run evs (step ev s)"

text \<open>The number of bulk fetches requested from the API client so far.\<close>

definition bulkFetches :: "provider \<Rightarrow> nat" where
  "bulkFetches s = length (filter (\<lambda>q. q = GetEvaluatedFeatureFlags) (requests s))"


subsection \<open>Predicates on events and runs\<close>

text \<open>The flags a bulk fetch delivers; an \<open>Error\<close> delivers none.\<close>

definition flagsOf :: "evaluatedAll \<Rightarrow> flagRecord" where
  "flagsOf data = (case data of Flags r \<Rightarrow> r | FetchError _ \<Rightarrow> Map.empty)"

text \<open>
  Events that neither run a continuation nor reset the table: calls of \<open>getFromCache\<close>
  and of \<open>evaluateFeatureFlag\<close>, a change of endpoint, time passing.
\<close>

fun writesNothing :: "event \<Rightarrow> bool" where
  "writesNothing (SettleEvaluate _ _) = False"
| "writesNothing (SettleRefresh _ _) = False"
| "writesNothing CallSyncAuthStatus = False"
| "writesNothing _ = True"

fun isRead :: "event \<Rightarrow> bool" where
  "isRead (CallGetFromCache _ _) = True"
| "isRead _ = False"

fun readOrTick :: "event \<Rightarrow> bool" where
  "readOrTick (CallGetFromCache _ _) = True"
| "readOrTick (Tick _) = True"
| "readOrTick _ = False"

text \<open>\<open>never P evs s\<close>: running \<open>evs\<close> from \<open>s\<close>, no event satisfies \<open>P\<close> in the
  state it is run in.\<close>

fun never :: "(event \<Rightarrow> provider \<Rightarrow> bool) \<Rightarrow> event list \<Rightarrow> provider \<Rightarrow> bool" where
  "never P [] s = True"
| "never P (ev # evs) s = (\<not> P ev s \<and> never P evs (step ev s))"

text \<open>
  The event stores a value for flag name \<open>key\<close> under endpoint \<open>E\<close>: an evaluation of
  that flag, started under \<open>E\<close>, whose promise is fulfilled (with a boolean, with null or
  with an \<open>Error\<close>, the last two being stored as false), or a bulk fetch, started under
  \<open>E\<close>, that delivers a record with that flag in it.
\<close>

fun populates :: "string \<Rightarrow> string \<Rightarrow> event \<Rightarrow> provider \<Rightarrow> bool" where
  "populates E key (SettleEvaluate i (Fulfilled v)) s =
     (case taskAt i s of
        Some (AwaitEvaluate ep flagName) \<Rightarrow> ep = E \<and> flagValue flagName = key
      | _ \<Rightarrow> False)"
| "populates E key (SettleRefresh i (Fulfilled (Flags r))) s =
     (case taskAt i s of
        Some (AwaitRefresh ep) \<Rightarrow> ep = E \<and> r key \<noteq> None
      | _ \<Rightarrow> False)"
| "populates E key ev s = False"

text \<open>
  The event replaces the record of endpoint \<open>E\<close>: \<open>syncAuthStatus\<close> is called, or a
  bulk fetch started under \<open>E\<close> is fulfilled.
\<close>

fun replaces :: "string \<Rightarrow> event \<Rightarrow> provider \<Rightarrow> bool" where
  "replaces E CallSyncAuthStatus s = True"
| "replaces E (SettleRefresh i (Fulfilled data)) s =
     (case taskAt i s of Some (AwaitRefresh ep) \<Rightarrow> ep = E | _ \<Rightarrow> False)"
| "replaces E ev s = False"

text \<open>
  The event may change what is stored for flag name \<open>key\<close> under \<open>E\<close>: it replaces the
  record of \<open>E\<close>, or it is the fulfilment of an evaluation of that flag started under \<open>E\<close>.
\<close>

fun overwrites :: "string \<Rightarrow> string \<Rightarrow> event \<Rightarrow> provider \<Rightarrow> bool" where
  "overwrites E key (SettleEvaluate i (Fulfilled v)) s =
     (case taskAt i s of
        Some (AwaitEvaluate ep flagName) \<Rightarrow> ep = E \<and> flagValue flagName = key
      | _ \<Rightarrow> False)"
| "overwrites E key ev s = replaces E ev s"

text \<open>
  An ordinary key is a string that names no member of \<open>Object.prototype\<close>. A state is
  ordinary when the current endpoint and the endpoints captured by the suspended
  continuations are ordinary keys, the prototype of the table is \<open>Object.prototype\<close>,
  and no flag has been written onto \<open>Object.prototype\<close>. An event is ordinary unless it
  sets the endpoint to a key that is not ordinary.
\<close>

definition ordinaryKey :: "string \<Rightarrow> bool" where
  "ordinaryKey e = (e \<noteq> ''__proto__'' \<and> e \<notin> set functionMembers)"

fun ordinaryTask :: "task \<Rightarrow> bool" where
  "ordinaryTask (AwaitEvaluate ep flagName) = ordinaryKey ep"
| "ordinaryTask (AwaitRefresh ep) = ordinaryKey ep"

fun ordinaryEvent :: "event \<Rightarrow> bool" where
  "ordinaryEvent (SetEndpoint ep) = ordinaryKey ep"
| "ordinaryEvent _ = True"

definition ordinaryState :: "provider \<Rightarrow> bool" where
  "ordinaryState s =
     (ordinaryKey (endpoint s) \<and> list_all ordinaryTask (suspended s)
      \<and> tablePrototype s = None \<and> objectPrototype s = Map.empty)"

text \<open>
  \<open>known E key evs s k\<close> follows one entry through a run: \<open>k\<close> says whether the entry
  is known at the start; an event that stores it makes it known, an event that replaces
  the record of \<open>E\<close> without storing it makes it unknown, and any other event leaves it
  as it is.
\<close>

fun known :: "string \<Rightarrow> string \<Rightarrow> event list \<Rightarrow> provider \<Rightarrow> bool \<Rightarrow> bool" where
  "known E key [] s k = k"
| "known E key (ev # evs) s k =
     known E key evs (step ev s)
       (if populates E key ev s then True else if replaces E ev s then False else k)"

text \<open>
  The boolean that the continuation of an evaluation stores for what the API client
  answered: the boolean itself, and false for null and for an \<open>Error\<close>.
\<close>

definition storedValue :: "evaluated \<Rightarrow> bool" where
  "storedValue value = (case value of Bool b \<Rightarrow> b | _ \<Rightarrow> False)"

text \<open>The flag as an own property of the own record of \<open>E\<close> in the table, if there is one.\<close>

definition ownFlag :: "provider \<Rightarrow> string \<Rightarrow> string \<Rightarrow> bool option" where
  "ownFlag s E name = (case featureFlags s E of None \<Rightarrow> None | Some r \<Rightarrow> r name)"

subsection \<open>Example states\<close>

text \<open>
  A provider just constructed for the endpoint https://a, at a time long after the epoch:
  \<open>lastUpdated\<close> is 0, so the cache counts as expired.
\<close>

definition freshProvider :: provider where
  "freshProvider = newProvider ''https://a'' 1700000000000 None"

text \<open>The same provider after \<open>syncAuthStatus\<close> ran to its end and fetched one flag.\<close>

definition cachedProvider :: provider where
  "cachedProvider =
     run [CallSyncAuthStatus,
          SettleRefresh 0 (Fulfilled (Flags [''cody-pro-jetbrains'' \<mapsto> True]))] freshProvider"

text \<open>
  A provider that started a refresh under https://a, was then switched to https://b and
  ran \<open>syncAuthStatus\<close> to its end there, while the refresh started under https://a
  is still in flight.
\<close>

definition switchedProvider :: provider where
  "switchedProvider =
     run [CallGetFromCache CodyProJetBrains None,
          SetEndpoint ''https://b'',
          CallSyncAuthStatus,
          SettleRefresh 1 (Fulfilled (Flags Map.empty))] freshProvider"

section \<open>Properties\<close>

subsection \<open>Facts about the table, single steps and runs\<close>

lemmas method_defs =
  getFromCache_def getFromCache_default_def spawnRefresh_def refreshFeatureFlags_call_def
  refreshFeatureFlags_resume_def evaluateFeatureFlag_call_def evaluateFeatureFlag_resume_def
  syncAuthStatus_call_def wrapInActiveSpan_def unsuspend_def

lemmas table_defs =
  lookupFlag_def readFlag_def tableGet_def inherited_def truthy_def tableSet_def writeFlag_def

lemmas example_defs =
  freshProvider_def cachedProvider_def newProvider_def ONE_HOUR_def
  taskAt_def killSwitch_def Let_def

text \<open>Reading the table depends on the table and the built-ins only.\<close>

lemma inherited_frame:
  "inherited (s\<lparr>requests := q\<rparr>) = inherited s"
  "inherited (s\<lparr>suspended := ts\<rparr>) = inherited s"
  "inherited (s\<lparr>lastUpdated := t\<rparr>) = inherited s"
  "inherited (s\<lparr>endpoint := e\<rparr>) = inherited s"
  "inherited (s\<lparr>now := t\<rparr>) = inherited s"
  by (simp_all add: inherited_def fun_eq_iff)

lemma tableGet_frame:
  "tableGet (s\<lparr>requests := q\<rparr>) = tableGet s"
  "tableGet (s\<lparr>suspended := ts\<rparr>) = tableGet s"
  "tableGet (s\<lparr>lastUpdated := t\<rparr>) = tableGet s"
  "tableGet (s\<lparr>endpoint := e\<rparr>) = tableGet s"
  "tableGet (s\<lparr>now := t\<rparr>) = tableGet s"
  by (simp_all add: tableGet_def inherited_frame fun_eq_iff split: option.splits)

lemma readFlag_frame:
  "readFlag (s\<lparr>requests := q\<rparr>) = readFlag s"
  "readFlag (s\<lparr>suspended := ts\<rparr>) = readFlag s"
  "readFlag (s\<lparr>lastUpdated := t\<rparr>) = readFlag s"
  "readFlag (s\<lparr>endpoint := e\<rparr>) = readFlag s"
  "readFlag (s\<lparr>now := t\<rparr>) = readFlag s"
  by (simp_all add: readFlag_def fun_eq_iff split: jsValue.splits option.splits)

lemma lookupFlag_frame:
  "lookupFlag (s\<lparr>requests := q\<rparr>) = lookupFlag s"
  "lookupFlag (s\<lparr>suspended := ts\<rparr>) = lookupFlag s"
  "lookupFlag (s\<lparr>lastUpdated := t\<rparr>) = lookupFlag s"
  "lookupFlag (s\<lparr>endpoint := e\<rparr>) = lookupFlag s"
  "lookupFlag (s\<lparr>now := t\<rparr>) = lookupFlag s"
  by (simp_all add: lookupFlag_def tableGet_frame readFlag_frame fun_eq_iff)

lemmas frames = inherited_frame tableGet_frame readFlag_frame lookupFlag_frame

lemma getFromCache_fst:
  "fst (getFromCache flagName ep s) = lookupFlag s ep (flagValue flagName)"
  by (simp add: method_defs frames Let_def)

lemma bulkFetches_getFromCache:
  "bulkFetches (snd (getFromCache F E s))
     = bulkFetches s + (if now s - lastUpdated s > ONE_HOUR then 1 else 0)"
  by (simp add: bulkFetches_def method_defs Let_def)

lemma run_append: "run (xs @ ys) s = run ys (run xs s)"
  by (induction xs arbitrary: s) simp_all

lemma tableSet_falsy:
  assumes "\<not> truthy (tableGet s ep)"
  shows "tableSet s ep r = s\<lparr>featureFlags := (featureFlags s)(ep \<mapsto> r)\<rparr>"
  using assms
  by (auto simp: tableSet_def tableGet_def inherited_def truthy_def split: option.splits)

lemma writeFlag_own:
  "featureFlags s e = Some r
   \<Longrightarrow> writeFlag s e name v = Inr (s\<lparr>featureFlags := (featureFlags s)(e \<mapsto> r(name \<mapsto> v))\<rparr>)"
  by (simp add: writeFlag_def)

lemma writeFlag_error:
  "(\<exists>err. writeFlag s e name v = Inl err) = (tableGet s e = Undefined \<or> (\<exists>b. tableGet s e = Boolean b))"
  by (cases "featureFlags s e"; cases "tableGet s e")
     (simp_all add: writeFlag_def tableGet_def)

lemma storedValue_eq:
  "(if value = Null \<or> isError_evaluated value then False
    else (case value of Bool b \<Rightarrow> b | _ \<Rightarrow> False)) = storedValue value"
  by (cases "value") (simp_all add: storedValue_def)

lemma evaluateFeatureFlag_resume_falsy:
  assumes "\<not> truthy (tableGet s ep)"
  shows "evaluateFeatureFlag_resume ep F (Fulfilled value) s
    = (Fulfilled (storedValue value),
       s\<lparr>featureFlags := (featureFlags s)(ep \<mapsto> [flagValue F \<mapsto> storedValue value])\<rparr>)"
  using assms
  by (simp add: evaluateFeatureFlag_resume_def storedValue_eq tableSet_falsy writeFlag_own Let_def)

lemma evaluateFeatureFlag_resume_truthy:
  assumes "truthy (tableGet s ep)"
  shows "evaluateFeatureFlag_resume ep F (Fulfilled value) s
    = (case writeFlag s ep (flagValue F) (storedValue value) of
         Inl err \<Rightarrow> (Rejected err, s)
       | Inr s2 \<Rightarrow> (Fulfilled (storedValue value), s2))"
  using assms
  by (simp add: evaluateFeatureFlag_resume_def storedValue_eq Let_def)

lemma writeFlag_truthy:
  assumes "truthy (tableGet s e)"
  shows "writeFlag s e name v =
    (if tableGet s e = Boolean True then Inl typeError
     else Inr (case featureFlags s e of
          Some r \<Rightarrow> s\<lparr>featureFlags := (featureFlags s)(e \<mapsto> r(name \<mapsto> v))\<rparr>
        | None \<Rightarrow>
            (case tableGet s e of
               Record d \<Rightarrow> s\<lparr>tablePrototype := Some (d(name \<mapsto> v))\<rparr>
             | BuiltinFunction f \<Rightarrow>
                 s\<lparr>functionFlags := (functionFlags s)(f := (functionFlags s f)(name \<mapsto> v))\<rparr>
             | _ \<Rightarrow> s\<lparr>objectPrototype := (objectPrototype s)(name \<mapsto> v)\<rparr>)))"
  using assms
  by (cases "featureFlags s e"; cases "tableGet s e")
     (simp_all add: writeFlag_def truthy_def tableGet_def)

lemma evaluateFeatureFlag_resume_fst:
  "fst (evaluateFeatureFlag_resume ep F (Fulfilled value) s)
     = (if tableGet s ep = Boolean True then Rejected typeError
        else Fulfilled (storedValue value))"
proof (cases "truthy (tableGet s ep)")
  case True
  then show ?thesis
    by (simp add: evaluateFeatureFlag_resume_truthy writeFlag_truthy)
next
  case False
  then have "tableGet s ep \<noteq> Boolean True" by (auto simp: truthy_def)
  with False show ?thesis
    by (simp add: evaluateFeatureFlag_resume_falsy)
qed

lemma flagValue_ordinary: "ordinaryKey (flagValue F)"
  by (cases F) (simp_all add: ordinaryKey_def functionMembers_def)

lemma lookupFlag_own:
  "featureFlags s E = Some r
   \<Longrightarrow> lookupFlag s E name
       = (case r name of Some v \<Rightarrow> Some v | None \<Rightarrow> objectPrototype s name)"
  by (simp add: lookupFlag_def tableGet_def readFlag_def)

lemma tableGet_inherited_Record:
  assumes "featureFlags s e = None" and "tableGet s e = Record d"
  shows "e = ''__proto__'' \<and> tablePrototype s = Some d \<and> d e = None"
  using assms by (auto simp: tableGet_def inherited_def split: option.splits if_splits)

lemma tableGet_inherited_ObjectPrototype:
  assumes "tableGet s e = ObjectPrototype"
  shows "e = ''__proto__'' \<and> tablePrototype s = None \<and> featureFlags s e = None"
  using assms by (auto simp: tableGet_def inherited_def split: option.splits if_splits)

lemma tableGet_inherited_BuiltinFunction:
  assumes "tableGet s e = BuiltinFunction f"
  shows "f = e \<and> e \<noteq> ''__proto__'' \<and> e \<in> set functionMembers \<and> featureFlags s e = None
    \<and> (case tablePrototype s of None \<Rightarrow> True | Some d \<Rightarrow> d e = None)"
  using assms by (auto simp: tableGet_def inherited_def split: option.splits if_splits)

lemma evaluateFeatureFlag_resume_reads_back:
  assumes "evaluateFeatureFlag_resume ep F (Fulfilled value) s = (Fulfilled v, s')"
  shows "lookupFlag s' ep (flagValue F) = Some v"
proof (cases "truthy (tableGet s ep)")
  case False
  with assms show ?thesis
    by (auto simp: evaluateFeatureFlag_resume_falsy lookupFlag_own)
next
  case True
  have fv: "flagValue F \<noteq> ''__proto__''"
    using flagValue_ordinary[of F] by (simp add: ordinaryKey_def)
  from True assms have nb: "tableGet s ep \<noteq> Boolean True"
    and s': "writeFlag s ep (flagValue F) v = Inr s'"
    by (auto simp: evaluateFeatureFlag_resume_truthy writeFlag_truthy split: if_splits)
  show ?thesis
  proof (cases "featureFlags s ep")
    case (Some r)
    with s' show ?thesis by (auto simp: writeFlag_own lookupFlag_own)
  next
    case None
    show ?thesis
    proof (cases "tableGet s ep")
      case Undefined
      with True show ?thesis by (simp add: truthy_def)
    next
      case (Boolean b)
      with True nb show ?thesis by (simp add: truthy_def)
    next
      case (Record d)
      from tableGet_inherited_Record[OF None Record]
      have e: "ep = ''__proto__''" and p: "tablePrototype s = Some d" and d: "d ep = None"
        by blast+
      from s' None Record have "s' = s\<lparr>tablePrototype := Some (d(flagValue F \<mapsto> v))\<rparr>"
        by (simp add: writeFlag_def)
      with None e d fv show ?thesis
        by (simp add: lookupFlag_def tableGet_def inherited_def readFlag_def)
    next
      case ObjectPrototype
      from tableGet_inherited_ObjectPrototype[OF ObjectPrototype]
      have e: "ep = ''__proto__''" and p: "tablePrototype s = None" by blast+
      from s' None ObjectPrototype
      have "s' = s\<lparr>objectPrototype := (objectPrototype s)(flagValue F \<mapsto> v)\<rparr>"
        by (simp add: writeFlag_def)
      with None e p show ?thesis
        by (simp add: lookupFlag_def tableGet_def inherited_def readFlag_def)
    next
      case (BuiltinFunction f)
      from tableGet_inherited_BuiltinFunction[OF BuiltinFunction]
      have f: "f = ep" and e: "ep \<noteq> ''__proto__''" and m: "ep \<in> set functionMembers"
        and p: "(case tablePrototype s of None \<Rightarrow> True | Some d \<Rightarrow> d ep = None)"
        by blast+
      from s' None BuiltinFunction f
      have "s' = s\<lparr>functionFlags := (functionFlags s)(ep := (functionFlags s ep)(flagValue F \<mapsto> v))\<rparr>"
        by (simp add: writeFlag_def)
      with None e m p show ?thesis
        by (simp add: lookupFlag_def tableGet_def inherited_def readFlag_def split: option.splits)
    qed
  qed
qed

text \<open>In an ordinary state an ordinary key reads own records only.\<close>

lemma ordinary_tableGet:
  assumes "tablePrototype s = None" and "objectPrototype s = Map.empty" and "ordinaryKey E"
  shows "tableGet s E = (case featureFlags s E of Some r \<Rightarrow> Record r | None \<Rightarrow> Undefined)"
  using assms by (simp add: tableGet_def inherited_def ordinaryKey_def split: option.splits)

lemma ordinary_lookup:
  assumes "tablePrototype s = None" and "objectPrototype s = Map.empty" and "ordinaryKey E"
  shows "lookupFlag s E name = (case featureFlags s E of None \<Rightarrow> None | Some r \<Rightarrow> r name)"
  using assms
  by (simp add: lookupFlag_def ordinary_tableGet readFlag_def split: option.splits)

lemma ordinary_tableSet:
  assumes "ordinaryKey E"
  shows "tableSet s E r = s\<lparr>featureFlags := (featureFlags s)(E \<mapsto> r)\<rparr>"
  using assms by (simp add: tableSet_def ordinaryKey_def)

lemma ordinary_evaluate_resume:
  assumes "tablePrototype s = None" and "objectPrototype s = Map.empty" and "ordinaryKey ep"
  shows "evaluateFeatureFlag_resume ep F (Fulfilled value) s
    = (Fulfilled (storedValue value),
       s\<lparr>featureFlags := (featureFlags s)
           (ep \<mapsto> (case featureFlags s ep of None \<Rightarrow> Map.empty | Some r \<Rightarrow> r)
                    (flagValue F \<mapsto> storedValue value))\<rparr>)"
proof (cases "featureFlags s ep")
  case None
  with assms have "\<not> truthy (tableGet s ep)"
    by (simp add: ordinary_tableGet truthy_def)
  with None show ?thesis by (simp add: evaluateFeatureFlag_resume_falsy)
next
  case (Some r)
  then have "truthy (tableGet s ep)" by (simp add: tableGet_def truthy_def)
  with Some show ?thesis
    by (simp add: evaluateFeatureFlag_resume_truthy writeFlag_own)
qed

lemma ordinary_refresh_resume:
  assumes "ordinaryKey ep"
  shows "refreshFeatureFlags_resume ep (Fulfilled d) s
    = (Fulfilled (), s\<lparr>featureFlags := (featureFlags s)(ep \<mapsto> flagsOf d), lastUpdated := now s\<rparr>)"
  using assms
  by (cases d) (simp_all add: refreshFeatureFlags_resume_def ordinary_tableSet flagsOf_def)

lemma ordinaryTask_taskAt:
  assumes "list_all ordinaryTask (suspended s)" and "taskAt i s = Some t"
  shows "ordinaryTask t"
  using assms by (auto simp: taskAt_def list_all_iff split: if_splits)

lemma ordinaryTask_unsuspend:
  assumes "list_all ordinaryTask (suspended s)"
  shows "list_all ordinaryTask (suspended (unsuspend i s))"
  using assms
  by (auto simp: unsuspend_def list_all_iff dest: in_set_takeD in_set_dropD)

lemma unsuspend_fields:
  "featureFlags (unsuspend i s) = featureFlags s"
  "tablePrototype (unsuspend i s) = tablePrototype s"
  "objectPrototype (unsuspend i s) = objectPrototype s"
  "endpoint (unsuspend i s) = endpoint s"
  "lookupFlag (unsuspend i s) = lookupFlag s"
  by (simp_all add: unsuspend_def frames)

lemma ordinary_step_SettleEvaluate:
  assumes "ordinaryState s" and "taskAt i s = Some (AwaitEvaluate ep F)"
  shows "step (SettleEvaluate i (Fulfilled value)) s
    = (unsuspend i s)\<lparr>featureFlags := (featureFlags s)
           (ep \<mapsto> (case featureFlags s ep of None \<Rightarrow> Map.empty | Some r \<Rightarrow> r)
                    (flagValue F \<mapsto> storedValue value))\<rparr>"
proof -
  from assms have "ordinaryKey ep"
    using ordinaryTask_taskAt[of s i "AwaitEvaluate ep F"] by (simp add: ordinaryState_def)
  moreover from assms(1) have "tablePrototype (unsuspend i s) = None"
    "objectPrototype (unsuspend i s) = Map.empty"
    by (simp_all add: ordinaryState_def unsuspend_fields)
  ultimately show ?thesis
    using assms(2) by (simp add: ordinary_evaluate_resume unsuspend_fields)
qed

lemma ordinary_step_SettleRefresh:
  assumes "ordinaryState s" and "taskAt i s = Some (AwaitRefresh ep)"
  shows "step (SettleRefresh i (Fulfilled d)) s
    = (unsuspend i s)\<lparr>featureFlags := (featureFlags s)(ep \<mapsto> flagsOf d),
                        lastUpdated := now s\<rparr>"
proof -
  from assms have "ordinaryKey ep"
    using ordinaryTask_taskAt[of s i "AwaitRefresh ep"] by (simp add: ordinaryState_def)
  then show ?thesis
    using assms(2) by (simp add: ordinary_refresh_resume unsuspend_fields) (simp add: unsuspend_def)
qed

lemma step_rejected:
  "step (SettleEvaluate i (Rejected e)) s
     = (case taskAt i s of Some (AwaitEvaluate ep F) \<Rightarrow> unsuspend i s | _ \<Rightarrow> s)"
  "step (SettleRefresh i (Rejected e)) s
     = (case taskAt i s of Some (AwaitRefresh ep) \<Rightarrow> unsuspend i s | _ \<Rightarrow> s)"
  by (simp_all add: evaluateFeatureFlag_resume_def refreshFeatureFlags_resume_def
       split: option.splits task.splits)

lemma step_call_fields:
  assumes "ev = CallGetFromCache F e \<or> ev = CallEvaluateFeatureFlag F \<or> ev = SetEndpoint ep
    \<or> ev = Tick n"
  shows "featureFlags (step ev s) = featureFlags s"
    and "tablePrototype (step ev s) = tablePrototype s"
    and "objectPrototype (step ev s) = objectPrototype s"
    and "functionFlags (step ev s) = functionFlags s"
    and "lastUpdated (step ev s) = lastUpdated s"
  using assms
  by (cases e; auto simp: method_defs Let_def split: option.splits prod.splits sum.splits)+

lemma populates_SettleEvaluate:
  "populates E key (SettleEvaluate i reply) s
     = (\<exists>v F. reply = Fulfilled v \<and> taskAt i s = Some (AwaitEvaluate E F)
          \<and> flagValue F = key)"
  by (cases reply) (auto split: option.splits task.splits)

lemma populates_SettleRefresh:
  "populates E key (SettleRefresh i reply) s
     = (\<exists>r. reply = Fulfilled (Flags r) \<and> taskAt i s = Some (AwaitRefresh E)
          \<and> r key \<noteq> None)"
proof (cases reply)
  case (Fulfilled d)
  then show ?thesis by (cases d) (auto split: option.splits task.splits)
qed simp

lemma replaces_SettleRefresh:
  "replaces E (SettleRefresh i reply) s
     = (\<exists>d. reply = Fulfilled d \<and> taskAt i s = Some (AwaitRefresh E))"
  by (cases reply) (auto split: option.splits task.splits)

lemma replaces_SettleEvaluate: "replaces E (SettleEvaluate i reply) s = False"
  by simp

lemmas settle_simps =
  populates_SettleEvaluate populates_SettleRefresh replaces_SettleRefresh replaces_SettleEvaluate

lemma step_ordinary:
  assumes "ordinaryState s" and "ordinaryEvent ev"
  shows "ordinaryState (step ev s)"
proof (cases "(ev, s)" rule: step.cases)
  case (5 i reply s')
  show ?thesis
  proof (cases "taskAt i s")
    case None
    with 5 assms show ?thesis by simp
  next
    case (Some t)
    show ?thesis
    proof (cases t)
      case (AwaitRefresh ep)
      with 5 Some assms show ?thesis by simp
    next
      case (AwaitEvaluate ep F)
      show ?thesis
      proof (cases reply)
        case (Rejected e)
        with 5 Some AwaitEvaluate assms ordinaryTask_unsuspend[of s i] show ?thesis
          by (simp add: step_rejected ordinaryState_def unsuspend_fields del: step.simps)
      next
        case (Fulfilled v)
        with 5 Some AwaitEvaluate assms ordinaryTask_unsuspend[of s i]
          ordinary_step_SettleEvaluate[of s i ep F v]
        show ?thesis
          by (simp add: ordinaryState_def unsuspend_fields del: step.simps)
      qed
    qed
  qed
next
  case (6 i reply s')
  show ?thesis
  proof (cases "taskAt i s")
    case None
    with 6 assms show ?thesis by simp
  next
    case (Some t)
    show ?thesis
    proof (cases t)
      case (AwaitEvaluate ep F)
      with 6 Some assms show ?thesis by simp
    next
      case (AwaitRefresh ep)
      show ?thesis
      proof (cases reply)
        case (Rejected e)
        with 6 Some AwaitRefresh assms ordinaryTask_unsuspend[of s i] show ?thesis
          by (simp add: step_rejected ordinaryState_def unsuspend_fields del: step.simps)
      next
        case (Fulfilled d)
        with 6 Some AwaitRefresh assms ordinaryTask_unsuspend[of s i]
          ordinary_step_SettleRefresh[of s i ep d]
        show ?thesis
          by (simp add: ordinaryState_def unsuspend_fields del: step.simps)
      qed
    qed
  qed
qed (use assms in \<open>auto simp: ordinaryState_def method_defs frames Let_def
      split: option.splits prod.splits sum.splits\<close>)

lemma run_ordinary:
  "ordinaryState s \<Longrightarrow> list_all ordinaryEvent evs \<Longrightarrow> ordinaryState (run evs s)"
  by (induction evs arbitrary: s) (simp_all add: step_ordinary del: step.simps)

text \<open>
  One event in an ordinary state: the entry for \<open>E\<close> and \<open>key\<close> is known afterwards
  exactly when the event stores it, or the event does not replace the record of \<open>E\<close>
  and the entry was known before.
\<close>

lemma step_known:
  assumes "ordinaryState s" and "ordinaryEvent ev" and "ordinaryKey E"
  shows "(lookupFlag (step ev s) E key \<noteq> None)
    = (if populates E key ev s then True
       else if replaces E ev s then False
       else lookupFlag s E key \<noteq> None)"
proof -
  have o: "tablePrototype s = None" "objectPrototype s = Map.empty"
    using assms(1) by (simp_all add: ordinaryState_def)
  have o': "tablePrototype (step ev s) = None" "objectPrototype (step ev s) = Map.empty"
    using step_ordinary[OF assms(1,2)] by (simp_all add: ordinaryState_def)
  note l = ordinary_lookup[OF o assms(3)] ordinary_lookup[OF o' assms(3)]
  show ?thesis
  proof (cases "(ev, s)" rule: step.cases)
    case (5 i reply s')
    show ?thesis
    proof (cases "taskAt i s")
      case None
      with 5 show ?thesis by (simp add: settle_simps)
    next
      case (Some t)
      show ?thesis
      proof (cases t)
        case (AwaitRefresh ep)
        with 5 Some show ?thesis by (simp add: settle_simps)
      next
        case (AwaitEvaluate ep F)
        show ?thesis
        proof (cases reply)
          case (Rejected e)
          with 5 Some AwaitEvaluate show ?thesis
            by (simp add: step_rejected unsuspend_fields settle_simps del: step.simps populates.simps replaces.simps)
        next
          case (Fulfilled v)
          with 5 Some AwaitEvaluate ordinary_step_SettleEvaluate[OF assms(1), of i ep F v]
          have "featureFlags (step ev s) = (featureFlags s)
              (ep \<mapsto> (case featureFlags s ep of None \<Rightarrow> Map.empty | Some r \<Rightarrow> r)
                    (flagValue F \<mapsto> storedValue v))"
            by (simp del: step.simps)
          with 5 Some AwaitEvaluate Fulfilled show ?thesis
            unfolding l by (auto simp: settle_simps simp del: step.simps populates.simps replaces.simps split: option.splits)
        qed
      qed
    qed
  next
    case (6 i reply s')
    show ?thesis
    proof (cases "taskAt i s")
      case None
      with 6 show ?thesis by (simp add: settle_simps)
    next
      case (Some t)
      show ?thesis
      proof (cases t)
        case (AwaitEvaluate ep F)
        with 6 Some show ?thesis by (simp add: settle_simps)
      next
        case (AwaitRefresh ep)
        show ?thesis
        proof (cases reply)
          case (Rejected e)
          with 6 Some AwaitRefresh show ?thesis
            by (simp add: step_rejected unsuspend_fields settle_simps del: step.simps populates.simps replaces.simps)
        next
          case (Fulfilled d)
          with 6 Some AwaitRefresh ordinary_step_SettleRefresh[OF assms(1), of i ep d]
          have "featureFlags (step ev s) = (featureFlags s)(ep \<mapsto> flagsOf d)"
            by (simp del: step.simps)
          with 6 Some AwaitRefresh Fulfilled show ?thesis
            unfolding l by (cases d) (auto simp: flagsOf_def settle_simps simp del: step.simps populates.simps replaces.simps split: option.splits)
        qed
      qed
    qed
  next
    case (4 s')
    then show ?thesis unfolding l by (simp add: method_defs)
  qed (use l in \<open>auto simp: method_defs frames Let_def
        split: option.splits prod.splits sum.splits\<close>)
qed

lemma run_known:
  assumes "ordinaryState s" and "list_all ordinaryEvent evs" and "ordinaryKey E"
  shows "(lookupFlag (run evs s) E key \<noteq> None) = known E key evs s (lookupFlag s E key \<noteq> None)"
  using assms(1,2)
proof (induction evs arbitrary: s)
  case Nil
  then show ?case by simp
next
  case (Cons ev evs)
  then have e: "ordinaryEvent ev" and es: "list_all ordinaryEvent evs" by simp_all
  from step_ordinary[OF Cons.prems(1) e] have s': "ordinaryState (step ev s)" .
  from Cons.IH[OF s' es] step_known[OF Cons.prems(1) e assms(3), of key]
  show ?case by (simp del: step.simps)
qed

lemma lookupFlag_ownFlag:
  "ownFlag s E name = Some v \<Longrightarrow> lookupFlag s E name = Some v"
  by (auto simp: ownFlag_def lookupFlag_own split: option.splits)

text \<open>A continuation writes no own record of the table but that of its captured endpoint.\<close>

lemma tableSet_other:
  "E \<noteq> ep \<Longrightarrow> featureFlags (tableSet s ep r) E = featureFlags s E"
  by (simp add: tableSet_def)

lemma writeFlag_other:
  assumes "writeFlag s ep name v = Inr s'" and "E \<noteq> ep"
  shows "featureFlags s' E = featureFlags s E"
  using assms
  by (cases "featureFlags s ep"; cases "tableGet s ep") (auto simp: writeFlag_def)

lemma evaluateFeatureFlag_resume_other:
  assumes "E \<noteq> ep"
  shows "featureFlags (snd (evaluateFeatureFlag_resume ep F reply s)) E = featureFlags s E"
proof (cases reply)
  case (Rejected e)
  then show ?thesis by (simp add: evaluateFeatureFlag_resume_def)
next
  case (Fulfilled val)
  show ?thesis
  proof (cases "truthy (tableGet s ep)")
    case False
    with Fulfilled assms show ?thesis by (simp add: evaluateFeatureFlag_resume_falsy)
  next
    case True
    with Fulfilled assms show ?thesis
      by (auto simp: evaluateFeatureFlag_resume_truthy writeFlag_other split: sum.splits)
  qed
qed

lemma refreshFeatureFlags_resume_other:
  assumes "E \<noteq> ep"
  shows "featureFlags (snd (refreshFeatureFlags_resume ep reply s)) E = featureFlags s E"
  using assms
  by (cases reply) (simp_all add: refreshFeatureFlags_resume_def tableSet_other)

lemma evaluateFeatureFlag_resume_own:
  assumes "featureFlags s E = Some r"
  shows "featureFlags (snd (evaluateFeatureFlag_resume E F (Fulfilled value) s)) E
    = Some (r(flagValue F \<mapsto> storedValue value))"
proof -
  from assms have "truthy (tableGet s E)" by (simp add: tableGet_def truthy_def)
  with assms show ?thesis
    by (simp add: evaluateFeatureFlag_resume_truthy writeFlag_own)
qed

lemma step_keeps_ownFlag:
  assumes "\<not> overwrites E key ev s" and "ownFlag s E key = Some v"
  shows "ownFlag (step ev s) E key = Some v"
proof (cases "(ev, s)" rule: step.cases)
  case (5 i reply s')
  show ?thesis
  proof (cases "taskAt i s")
    case None
    with 5 assms show ?thesis by simp
  next
    case (Some t)
    show ?thesis
    proof (cases t)
      case (AwaitRefresh ep)
      with 5 Some assms show ?thesis by simp
    next
      case (AwaitEvaluate ep F)
      show ?thesis
      proof (cases "E = ep")
        case False
        with 5 Some AwaitEvaluate assms(2)
          evaluateFeatureFlag_resume_other[of E ep F reply "unsuspend i s"]
        show ?thesis by (simp add: ownFlag_def unsuspend_fields)
      next
        case True
        show ?thesis
        proof (cases reply)
          case (Rejected e)
          with 5 Some AwaitEvaluate assms(2) show ?thesis
            by (simp add: step_rejected ownFlag_def unsuspend_fields del: step.simps)
        next
          case (Fulfilled val)
          from assms(2) obtain r where r: "featureFlags s E = Some r" "r key = Some v"
            by (auto simp: ownFlag_def split: option.splits)
          from assms(1) 5 Some AwaitEvaluate True Fulfilled have k: "flagValue F \<noteq> key"
            by simp
          from r(1) have "featureFlags (unsuspend i s) E = Some r"
            by (simp add: unsuspend_fields)
          from evaluateFeatureFlag_resume_own[OF this, of F val] 5 Some AwaitEvaluate True
            Fulfilled r(2) k
          show ?thesis by (simp add: ownFlag_def)
        qed
      qed
    qed
  qed
next
  case (6 i reply s')
  show ?thesis
  proof (cases "taskAt i s")
    case None
    with 6 assms show ?thesis by simp
  next
    case (Some t)
    show ?thesis
    proof (cases t)
      case (AwaitEvaluate ep F)
      with 6 Some assms show ?thesis by simp
    next
      case (AwaitRefresh ep)
      show ?thesis
      proof (cases reply)
        case (Rejected e)
        with 6 Some AwaitRefresh assms(2) show ?thesis
          by (simp add: step_rejected ownFlag_def unsuspend_fields del: step.simps)
      next
        case (Fulfilled d)
        with assms(1) 6 Some AwaitRefresh have "E \<noteq> ep" by auto
        with 6 Some AwaitRefresh assms(2)
          refreshFeatureFlags_resume_other[of E ep reply "unsuspend i s"]
        show ?thesis by (simp add: ownFlag_def unsuspend_fields)
      qed
    qed
  qed
qed (use assms in \<open>auto simp: ownFlag_def method_defs Let_def
      split: option.splits prod.splits sum.splits\<close>)

lemma run_keeps_ownFlag:
  "never (overwrites E key) evs s \<Longrightarrow> ownFlag s E key = Some v
   \<Longrightarrow> ownFlag (run evs s) E key = Some v"
proof (induction evs arbitrary: s)
  case Nil
  then show ?case by simp
next
  case (Cons ev evs)
  from Cons.prems have a: "\<not> overwrites E key ev s"
    and b: "never (overwrites E key) evs (step ev s)"
    by simp_all
  from a Cons.prems(2) have "ownFlag (step ev s) E key = Some v"
    by (rule step_keeps_ownFlag)
  with b show ?case using Cons.IH by (simp del: step.simps)
qed

text \<open>After an evaluation has landed under an ordinary key, the flag is in an own record.\<close>

lemma evaluateFeatureFlag_resume_ownFlag:
  assumes "ordinaryKey E" and "tableGet s E \<noteq> Boolean True"
  shows "ownFlag (snd (evaluateFeatureFlag_resume E F (Fulfilled value) s)) E (flagValue F)
    = Some (storedValue value)"
proof (cases "truthy (tableGet s E)")
  case False
  then show ?thesis by (simp add: evaluateFeatureFlag_resume_falsy ownFlag_def)
next
  case True
  with assms obtain r where "featureFlags s E = Some r"
    by (cases "tableGet s E"; cases "featureFlags s E")
       (auto simp: truthy_def ordinaryKey_def
          dest: tableGet_inherited_Record tableGet_inherited_ObjectPrototype
            tableGet_inherited_BuiltinFunction)
  from evaluateFeatureFlag_resume_own[OF this] show ?thesis
    by (simp add: ownFlag_def)
qed

lemma step_writesNothing:
  assumes "writesNothing ev"
  shows "featureFlags (step ev s) = featureFlags s"
    and "tablePrototype (step ev s) = tablePrototype s"
    and "lastUpdated (step ev s) = lastUpdated s"
    and "\<exists>ts. suspended (step ev s) = suspended s @ ts"
  using assms
  by (cases "(ev, s)" rule: step.cases;
      simp add: method_defs Let_def split: option.splits prod.splits sum.splits)+

lemma run_writesNothing:
  "list_all writesNothing evs \<Longrightarrow>
     featureFlags (run evs s) = featureFlags s \<and> tablePrototype (run evs s) = tablePrototype s
     \<and> lastUpdated (run evs s) = lastUpdated s
     \<and> (\<exists>ts. suspended (run evs s) = suspended s @ ts)"
proof (induction evs arbitrary: s)
  case Nil
  then show ?case by simp
next
  case (Cons ev evs)
  then have w: "writesNothing ev" and ws: "list_all writesNothing evs" by simp_all
  from step_writesNothing(4)[OF w, of s] obtain ts where
    ts: "suspended (step ev s) = suspended s @ ts" by blast
  from Cons.IH[OF ws, of "step ev s"] obtain us where
    "featureFlags (run evs (step ev s)) = featureFlags (step ev s)"
    "tablePrototype (run evs (step ev s)) = tablePrototype (step ev s)"
    "lastUpdated (run evs (step ev s)) = lastUpdated (step ev s)"
    "suspended (run evs (step ev s)) = suspended (step ev s) @ us" by blast
  with ts step_writesNothing(1,2,3)[OF w, of s] show ?case by (simp del: step.simps)
qed

lemma step_readOrTick:
  assumes "readOrTick ev"
  shows "featureFlags (step ev s) = featureFlags s"
    and "lastUpdated (step ev s) = lastUpdated s"
    and "now s \<le> now (step ev s)"
    and "bulkFetches (step ev s)
          = bulkFetches s + (if isRead ev \<and> now s - lastUpdated s > ONE_HOUR then 1 else 0)"
  using assms
  by (cases "(ev, s)" rule: step.cases;
      simp add: bulkFetches_getFromCache getFromCache_default_def;
      simp add: method_defs bulkFetches_def Let_def)+

lemma run_readOrTick:
  "list_all readOrTick evs \<Longrightarrow>
     featureFlags (run evs s) = featureFlags s
     \<and> lastUpdated (run evs s) = lastUpdated s
     \<and> now s \<le> now (run evs s)
     \<and> (now (run evs s) - lastUpdated s \<le> ONE_HOUR \<longrightarrow>
          bulkFetches (run evs s) = bulkFetches s)
     \<and> (now s - lastUpdated s > ONE_HOUR \<longrightarrow>
          bulkFetches (run evs s) = bulkFetches s + length (filter isRead evs))"
proof (induction evs arbitrary: s)
  case Nil
  then show ?case by simp
next
  case (Cons ev evs)
  then have r: "readOrTick ev" and rs: "list_all readOrTick evs" by simp_all
  note st = step_readOrTick[OF r, of s]
  note ih = Cons.IH[OF rs, of "step ev s"]
  show ?case using st ih by (auto simp del: step.simps split: if_splits)
qed

lemma evaluateFeatureFlag_uncached:
  assumes "\<not> killSwitch s"
    and "lookupFlag s (endpoint s) (flagValue F) = None"
  shows "evaluateFeatureFlag F reply s
    = evaluateFeatureFlag_resume (endpoint s) F reply
        ((snd (getFromCache F (endpoint s) s))
           \<lparr>requests := requests (snd (getFromCache F (endpoint s) s))
              @ [EvaluateFeatureFlag F]\<rparr>)"
proof -
  obtain c s1 where g: "getFromCache F (endpoint s) s = (c, s1)"
    by (cases "getFromCache F (endpoint s) s")
  with getFromCache_fst[of F "endpoint s" s] assms(2) have "c = None" by simp
  with g assms(1) show ?thesis
    by (simp add: evaluateFeatureFlag_def evaluateFeatureFlag_call_def wrapInActiveSpan_def)
qed

lemma getFromCache_snd_table:
  "tableGet (snd (getFromCache F e s)) = tableGet s"
  "lookupFlag (snd (getFromCache F e s)) = lookupFlag s"
  by (simp_all add: method_defs frames Let_def)

lemma evaluateFeatureFlag_uncached_fst:
  assumes "\<not> killSwitch s"
    and "lookupFlag s (endpoint s) (flagValue F) = None"
  shows "fst (evaluateFeatureFlag F (Fulfilled val) s)
    = (if tableGet s (endpoint s) = Boolean True then Rejected typeError
       else Fulfilled (storedValue val))"
    and "fst (evaluateFeatureFlag F (Rejected e) s) = Rejected e"
  by (simp_all add: evaluateFeatureFlag_uncached[OF assms] evaluateFeatureFlag_resume_fst
      getFromCache_snd_table frames) (simp add: evaluateFeatureFlag_resume_def)

lemma syncAuthStatus_call_facts:
  "fst (syncAuthStatus_call s) = endpoint s"
  "requests (snd (syncAuthStatus_call s)) = requests s @ [GetEvaluatedFeatureFlags]"
  "featureFlags (snd (syncAuthStatus_call s)) = Map.empty"
  "tablePrototype (snd (syncAuthStatus_call s)) = None"
  "objectPrototype (snd (syncAuthStatus_call s)) = objectPrototype s"
  "now (snd (syncAuthStatus_call s)) = now s"
  by (simp_all add: method_defs)

lemma syncAuthStatus_awaited:
  assumes "ordinaryKey (endpoint s)"
  shows "syncAuthStatus (Fulfilled d) s
    = (Fulfilled (),
       (snd (syncAuthStatus_call s))\<lparr>featureFlags := [endpoint s \<mapsto> flagsOf d],
           lastUpdated := now s\<rparr>)"
  using assms
  by (simp add: syncAuthStatus_def split_beta syncAuthStatus_call_facts ordinary_refresh_resume)

lemma syncAuthStatus_reads:
  assumes "ordinaryState s" and "ordinaryKey e"
  shows "getExposedExperiments e (snd (syncAuthStatus (Fulfilled d) s))
        = Record (if e = endpoint s then flagsOf d else Map.empty)"
    and "fst (getFromCache F e (snd (syncAuthStatus (Fulfilled d) s)))
        = (if e = endpoint s then flagsOf d (flagValue F) else None)"
proof -
  let ?s' = "snd (syncAuthStatus (Fulfilled d) s)"
  from assms(1) have k: "ordinaryKey (endpoint s)" and o: "objectPrototype s = Map.empty"
    by (simp_all add: ordinaryState_def)
  have f: "featureFlags ?s' = [endpoint s \<mapsto> flagsOf d]"
    and p: "tablePrototype ?s' = None" and q: "objectPrototype ?s' = Map.empty"
    using o by (simp_all add: syncAuthStatus_awaited[OF k] syncAuthStatus_call_facts)
  show "getExposedExperiments e ?s' = Record (if e = endpoint s then flagsOf d else Map.empty)"
    by (simp add: getExposedExperiments_def ordinary_tableGet[OF p q assms(2)] f truthy_def)
  show "fst (getFromCache F e ?s') = (if e = endpoint s then flagsOf d (flagValue F) else None)"
    by (simp add: getFromCache_fst ordinary_lookup[OF p q assms(2)] f)
qed

lemma syncAuthStatus_interleaved:
  assumes "ordinaryKey (endpoint s)" and "list_all writesNothing evs"
  shows "featureFlags (run (CallSyncAuthStatus # evs
            @ [SettleRefresh (length (suspended s)) (Fulfilled d)]) s)
         = [endpoint s \<mapsto> flagsOf d]"
proof -
  define s1 where "s1 = step CallSyncAuthStatus s"
  have s1: "featureFlags s1 = Map.empty"
    "suspended s1 = suspended s @ [AwaitRefresh (endpoint s)]"
    by (simp_all add: s1_def method_defs)
  from run_writesNothing[OF assms(2), of s1] obtain ts where
    r: "featureFlags (run evs s1) = Map.empty"
       "suspended (run evs s1) = suspended s @ AwaitRefresh (endpoint s) # ts"
    using s1 by auto
  have t: "taskAt (length (suspended s)) (run evs s1) = Some (AwaitRefresh (endpoint s))"
    by (simp add: taskAt_def r(2))
  have "featureFlags (step (SettleRefresh (length (suspended s)) (Fulfilled d)) (run evs s1))
      = [endpoint s \<mapsto> flagsOf d]"
    using t r(1) by (simp add: ordinary_refresh_resume[OF assms(1)] unsuspend_fields)
  then show ?thesis by (simp add: run_append s1_def [symmetric] del: step.simps)
qed

lemmas ordinary_defs = ordinaryState_def ordinaryKey_def functionMembers_def

lemmas eval_defs = example_defs method_defs table_defs functionMembers_def
  getExposedExperiments_def getFromCache_fst

lemma ordinary_step_lookup:
  assumes "ordinaryState s" and "ordinaryKey E"
  shows "taskAt i s = Some (AwaitEvaluate E F)
      \<Longrightarrow> lookupFlag (step (SettleEvaluate i (Fulfilled val)) s) E (flagValue F)
            = Some (storedValue val)"
    and "taskAt i s = Some (AwaitRefresh E)
      \<Longrightarrow> lookupFlag (step (SettleRefresh i (Fulfilled d)) s) E key = flagsOf d key"
proof -
  have o: "tablePrototype s = None" "objectPrototype s = Map.empty"
    using assms(1) by (simp_all add: ordinaryState_def)
  show "lookupFlag (step (SettleEvaluate i (Fulfilled val)) s) E (flagValue F)
            = Some (storedValue val)" if "taskAt i s = Some (AwaitEvaluate E F)"
    unfolding ordinary_step_SettleEvaluate[OF assms(1) that]
    using o assms(2) by (simp add: ordinary_lookup unsuspend_fields)
  show "lookupFlag (step (SettleRefresh i (Fulfilled d)) s) E key = flagsOf d key"
    if "taskAt i s = Some (AwaitRefresh E)"
    unfolding ordinary_step_SettleRefresh[OF assms(1) that]
    using o assms(2) by (simp add: ordinary_lookup unsuspend_fields)
qed

lemma tableSet_reads_other:
  assumes "E2 \<noteq> E1" and "E1 \<noteq> ''__proto__''"
  shows "tableGet (tableSet s E1 r) E2 = tableGet s E2"
    and "readFlag (tableSet s E1 r) = readFlag s"
    and "lookupFlag (tableSet s E1 r) E2 = lookupFlag s E2"
  using assms
  by (simp_all add: lookupFlag_def tableSet_def tableGet_def inherited_def readFlag_def fun_eq_iff
      split: option.splits jsValue.splits)

text \<open>
  The state in which a write throws: a flag written onto \<open>Object.prototype\<close> as true,
  and an endpoint that has the name of that flag.
\<close>

lemma inherited_true_write_throws:
  "tableGet
     (run [SetEndpoint ''__proto__'',
           CallEvaluateFeatureFlag CodyCommandHints,
           SettleEvaluate 0 (Fulfilled (Bool True)),
           SetEndpoint ''cody-command-hints''] cachedProvider) ''cody-command-hints''
     = Boolean True
   \<and> fst (evaluateFeatureFlag CodyProJetBrains (Fulfilled (Bool True))
       (run [SetEndpoint ''__proto__'',
             CallEvaluateFeatureFlag CodyCommandHints,
             SettleEvaluate 0 (Fulfilled (Bool True)),
             SetEndpoint ''cody-command-hints''] cachedProvider)) = Rejected typeError"
  by (simp add: evaluateFeatureFlag_def eval_defs)

subsection \<open>Reset on a change of identity\<close>

text \<open>
  C1 (amended). The statement is for ordinary states and ordinary keys: endpoints that
  name no member of \<open>Object.prototype\<close>, and nothing written onto \<open>Object.prototype\<close>.
  When \<open>syncAuthStatus\<close> is called, the table is replaced by an empty one and exactly
  one bulk fetch is requested, for the endpoint current at the call. When the method is
  awaited and the fetch is fulfilled, with no other continuation landing before the fetch
  does (calls of \<open>getFromCache\<close> and \<open>evaluateFeatureFlag\<close>, changes of endpoint and
  passing time may come in between), the table holds exactly one record, that of the
  endpoint of the call, with the flags the fetch delivered (none for an \<open>Error\<close>), and
  \<open>getExposedExperiments\<close> and \<open>getFromCache\<close> find nothing for any other endpoint.
  When the fetch is rejected the table is left empty. A continuation that was in flight
  at the reset and lands afterwards does write, under the endpoint it captured: in every
  interleaving, an entry is known after the reset exactly when a continuation that landed
  after the reset stored it and no later bulk fetch or reset removed it; nothing that
  was cached before the reset remains.
\<close>

theorem syncAuthStatus_reset_amended:
  assumes "ordinaryState s" and "list_all writesNothing evs" and "ordinaryKey e"
    and "list_all ordinaryEvent evs'" and "ordinaryKey E"
  shows "fst (syncAuthStatus_call s) = endpoint s
   \<and> requests (snd (syncAuthStatus_call s)) = requests s @ [GetEvaluatedFeatureFlags]
   \<and> featureFlags (snd (syncAuthStatus_call s)) = Map.empty
   \<and> fst (syncAuthStatus (Fulfilled d) s) = Fulfilled ()
   \<and> featureFlags (snd (syncAuthStatus (Fulfilled d) s)) = [endpoint s \<mapsto> flagsOf d]
   \<and> getExposedExperiments e (snd (syncAuthStatus (Fulfilled d) s))
        = Record (if e = endpoint s then flagsOf d else Map.empty)
   \<and> fst (getFromCache F e (snd (syncAuthStatus (Fulfilled d) s)))
        = (if e = endpoint s then flagsOf d (flagValue F) else None)
   \<and> featureFlags (run (CallSyncAuthStatus # evs
            @ [SettleRefresh (length (suspended s)) (Fulfilled d)]) s)
        = [endpoint s \<mapsto> flagsOf d]
   \<and> featureFlags (snd (syncAuthStatus (Rejected err) s)) = Map.empty
   \<and> (lookupFlag (run (CallSyncAuthStatus # evs') s) E key \<noteq> None)
        = known E key evs' (step CallSyncAuthStatus s) False"
proof -
  from assms(1) have k: "ordinaryKey (endpoint s)" by (simp add: ordinaryState_def)
  have rej: "featureFlags (snd (syncAuthStatus (Rejected err) s)) = Map.empty"
    by (simp add: syncAuthStatus_def method_defs)
  have aw: "fst (syncAuthStatus (Fulfilled d) s) = Fulfilled ()"
    "featureFlags (snd (syncAuthStatus (Fulfilled d) s)) = [endpoint s \<mapsto> flagsOf d]"
    by (simp_all add: syncAuthStatus_awaited[OF k])
  have all: "list_all ordinaryEvent (CallSyncAuthStatus # evs')"
    using assms(4) by simp
  have later: "(lookupFlag (run (CallSyncAuthStatus # evs') s) E key \<noteq> None)
        = known E key evs' (step CallSyncAuthStatus s) False"
    using run_known[OF assms(1) all assms(5), of key] by (simp del: step.simps)
  show ?thesis
    using syncAuthStatus_call_facts(1,2,3)[of s] aw rej later
      syncAuthStatus_reads(1)[OF assms(1,3), where d = d]
      syncAuthStatus_reads(2)[OF assms(1,3), where d = d and F = F]
      syncAuthStatus_interleaved[OF k assms(2), where d = d]
    by (simp only:)
qed

text \<open>
  The provider holds a flag for https://a, the endpoint is switched to https://b and
  \<open>syncAuthStatus\<close> fetches one flag there.
\<close>

theorem syncAuthStatus_reset_amended_witness:
  "ordinaryState (step (SetEndpoint ''https://b'') cachedProvider)
   \<and> list_all writesNothing [CallGetFromCache CodyProJetBrains (Some ''https://a''), Tick 5]
   \<and> ordinaryKey ''https://a''
   \<and> list_all ordinaryEvent
        [CallEvaluateFeatureFlag CodyCommandHints,
         SettleEvaluate 1 (Fulfilled (Bool True)),
         SettleRefresh 0 (Fulfilled (Flags [''cody-command-hints'' \<mapsto> False]))]
   \<and> getExposedExperiments ''https://a'' (step (SetEndpoint ''https://b'') cachedProvider)
        = Record [''cody-pro-jetbrains'' \<mapsto> True]
   \<and> requests (snd (syncAuthStatus_call (step (SetEndpoint ''https://b'') cachedProvider)))
        = [GetEvaluatedFeatureFlags, GetEvaluatedFeatureFlags]
   \<and> featureFlags (snd (syncAuthStatus (Fulfilled (Flags [''cody-command-hints'' \<mapsto> False]))
        (step (SetEndpoint ''https://b'') cachedProvider)))
      = [''https://b'' \<mapsto> [''cody-command-hints'' \<mapsto> False]]
   \<and> getExposedExperiments ''https://a''
        (snd (syncAuthStatus (Fulfilled (Flags [''cody-command-hints'' \<mapsto> False]))
          (step (SetEndpoint ''https://b'') cachedProvider))) = Record Map.empty
   \<and> fst (getFromCache CodyProJetBrains ''https://a''
        (snd (syncAuthStatus (Fulfilled (Flags [''cody-command-hints'' \<mapsto> False]))
          (step (SetEndpoint ''https://b'') cachedProvider)))) = None
   \<and> featureFlags (run (CallSyncAuthStatus
          # [CallGetFromCache CodyProJetBrains (Some ''https://a''), Tick 5]
          @ [SettleRefresh (length (suspended (step (SetEndpoint ''https://b'') cachedProvider)))
               (Fulfilled (Flags [''cody-command-hints'' \<mapsto> False]))])
        (step (SetEndpoint ''https://b'') cachedProvider))
      = [''https://b'' \<mapsto> [''cody-command-hints'' \<mapsto> False]]
   \<and> \<not> known ''https://a'' ''cody-pro-jetbrains''
        [CallEvaluateFeatureFlag CodyCommandHints,
         SettleEvaluate 1 (Fulfilled (Bool True)),
         SettleRefresh 0 (Fulfilled (Flags [''cody-command-hints'' \<mapsto> False]))]
        (step CallSyncAuthStatus (step (SetEndpoint ''https://b'') cachedProvider)) False
   \<and> lookupFlag
        (run (CallSyncAuthStatus #
           [CallEvaluateFeatureFlag CodyCommandHints,
            SettleEvaluate 1 (Fulfilled (Bool True)),
            SettleRefresh 0 (Fulfilled (Flags [''cody-command-hints'' \<mapsto> False]))])
          (step (SetEndpoint ''https://b'') cachedProvider))
        ''https://a'' ''cody-pro-jetbrains'' = None"
proof -
  have o: "ordinaryState (step (SetEndpoint ''https://b'') cachedProvider)"
    by (simp add: ordinary_defs eval_defs)
  have h: "list_all writesNothing
      [CallGetFromCache CodyProJetBrains (Some ''https://a''), Tick 5]"
    by simp
  have k: "ordinaryKey ''https://a''"
    by (simp add: ordinary_defs)
  have v: "list_all ordinaryEvent
        [CallEvaluateFeatureFlag CodyCommandHints,
         SettleEvaluate 1 (Fulfilled (Bool True)),
         SettleRefresh 0 (Fulfilled (Flags [''cody-command-hints'' \<mapsto> False]))]"
    by simp
  have old: "getExposedExperiments ''https://a'' (step (SetEndpoint ''https://b'') cachedProvider)
      = Record [''cody-pro-jetbrains'' \<mapsto> True]"
    by (simp add: eval_defs)
  have q: "requests (step (SetEndpoint ''https://b'') cachedProvider) = [GetEvaluatedFeatureFlags]"
    by (simp add: eval_defs)
  have e: "endpoint (step (SetEndpoint ''https://b'') cachedProvider) = ''https://b''"
    by simp
  have f: "flagsOf (Flags [''cody-command-hints'' \<mapsto> False])
      = [''cody-command-hints'' \<mapsto> False]"
    by (simp add: flagsOf_def)
  have n: "\<not> known ''https://a'' ''cody-pro-jetbrains''
        [CallEvaluateFeatureFlag CodyCommandHints,
         SettleEvaluate 1 (Fulfilled (Bool True)),
         SettleRefresh 0 (Fulfilled (Flags [''cody-command-hints'' \<mapsto> False]))]
        (step CallSyncAuthStatus (step (SetEndpoint ''https://b'') cachedProvider)) False"
    by (simp add: eval_defs)
  note inst = syncAuthStatus_reset_amended [OF o h k v k,
      where d = "Flags [''cody-command-hints'' \<mapsto> False]" and F = CodyProJetBrains
        and key = "''cody-pro-jetbrains''"]
  have parts: "requests (snd (syncAuthStatus_call (step (SetEndpoint ''https://b'') cachedProvider)))
        = [GetEvaluatedFeatureFlags, GetEvaluatedFeatureFlags]"
    "featureFlags (snd (syncAuthStatus (Fulfilled (Flags [''cody-command-hints'' \<mapsto> False]))
        (step (SetEndpoint ''https://b'') cachedProvider)))
      = [''https://b'' \<mapsto> [''cody-command-hints'' \<mapsto> False]]"
    "getExposedExperiments ''https://a''
        (snd (syncAuthStatus (Fulfilled (Flags [''cody-command-hints'' \<mapsto> False]))
          (step (SetEndpoint ''https://b'') cachedProvider))) = Record Map.empty"
    "fst (getFromCache CodyProJetBrains ''https://a''
        (snd (syncAuthStatus (Fulfilled (Flags [''cody-command-hints'' \<mapsto> False]))
          (step (SetEndpoint ''https://b'') cachedProvider)))) = None"
    "featureFlags (run (CallSyncAuthStatus
          # [CallGetFromCache CodyProJetBrains (Some ''https://a''), Tick 5]
          @ [SettleRefresh (length (suspended (step (SetEndpoint ''https://b'') cachedProvider)))
               (Fulfilled (Flags [''cody-command-hints'' \<mapsto> False]))])
        (step (SetEndpoint ''https://b'') cachedProvider))
      = [''https://b'' \<mapsto> [''cody-command-hints'' \<mapsto> False]]"
    using inst by (simp_all only: e f q) simp_all
  have last: "lookupFlag
        (run (CallSyncAuthStatus #
           [CallEvaluateFeatureFlag CodyCommandHints,
            SettleEvaluate 1 (Fulfilled (Bool True)),
            SettleRefresh 0 (Fulfilled (Flags [''cody-command-hints'' \<mapsto> False]))])
          (step (SetEndpoint ''https://b'') cachedProvider))
        ''https://a'' ''cody-pro-jetbrains'' = None"
    using inst n by blast
  show ?thesis
    using o h k v old parts n last by blast
qed

text \<open>
  The claim as stated fails. An evaluation is started under https://a and is still in
  flight when the endpoint is switched to https://b and \<open>syncAuthStatus\<close> is called.
  The evaluation lands during the \<open>await\<close>, then the bulk fetch lands. \<open>syncAuthStatus\<close>
  has completed and nothing is suspended, yet the table holds the flag under https://a
  beside the fetched record of https://b.
\<close>

theorem syncAuthStatus_in_flight_counterexample:
  "suspended (run [CallEvaluateFeatureFlag CodyCommandHints,
                   SetEndpoint ''https://b'',
                   CallSyncAuthStatus,
                   SettleEvaluate 0 (Fulfilled (Bool True)),
                   SettleRefresh 0 (Fulfilled (Flags [''cody-pro-jetbrains'' \<mapsto> False]))]
              cachedProvider) = []
   \<and> endpoint (run [CallEvaluateFeatureFlag CodyCommandHints,
                   SetEndpoint ''https://b'',
                   CallSyncAuthStatus,
                   SettleEvaluate 0 (Fulfilled (Bool True)),
                   SettleRefresh 0 (Fulfilled (Flags [''cody-pro-jetbrains'' \<mapsto> False]))]
              cachedProvider) = ''https://b''
   \<and> featureFlags (run [CallEvaluateFeatureFlag CodyCommandHints,
                   SetEndpoint ''https://b'',
                   CallSyncAuthStatus,
                   SettleEvaluate 0 (Fulfilled (Bool True)),
                   SettleRefresh 0 (Fulfilled (Flags [''cody-pro-jetbrains'' \<mapsto> False]))]
              cachedProvider)
       = [''https://a'' \<mapsto> [''cody-command-hints'' \<mapsto> True],
          ''https://b'' \<mapsto> [''cody-pro-jetbrains'' \<mapsto> False]]
   \<and> getExposedExperiments ''https://a''
        (run [CallEvaluateFeatureFlag CodyCommandHints,
              SetEndpoint ''https://b'',
              CallSyncAuthStatus,
              SettleEvaluate 0 (Fulfilled (Bool True)),
              SettleRefresh 0 (Fulfilled (Flags [''cody-pro-jetbrains'' \<mapsto> False]))]
           cachedProvider) = Record [''cody-command-hints'' \<mapsto> True]
   \<and> fst (getFromCache CodyCommandHints ''https://a''
        (run [CallEvaluateFeatureFlag CodyCommandHints,
              SetEndpoint ''https://b'',
              CallSyncAuthStatus,
              SettleEvaluate 0 (Fulfilled (Bool True)),
              SettleRefresh 0 (Fulfilled (Flags [''cody-pro-jetbrains'' \<mapsto> False]))]
           cachedProvider)) = Some True"
  by (simp add: eval_defs)

subsection \<open>One record per endpoint\<close>

text \<open>
  C2. The claim is that a value stored for one endpoint is never returned for another.
  The code does not keep to it when an endpoint names a member of \<open>Object.prototype\<close>.
  The provider holds a record for https://a without the flag, so \<open>getFromCache\<close>
  returns undefined for it. The endpoint is set to the string \<open>__proto__\<close> and the flag
  is evaluated; the request fails and false is stored, under \<open>__proto__\<close>. The table
  has no own property of that name: \<open>this.featureFlags[endpoint]\<close> is \<open>Object.prototype\<close>
  and the flag is written onto it, leaving the own records of the table as they were.
  Every record inherits it: \<open>getFromCache\<close> for https://a now returns false, and still
  does after \<open>syncAuthStatus\<close> has replaced the table and fetched for https://a.
\<close>

theorem prototype_named_endpoint_leaks:
  "''__proto__'' \<noteq> ''https://a''
   \<and> fst (getFromCache CodyCommandHints ''https://a'' cachedProvider) = None
   \<and> fst (getFromCache CodyCommandHints ''https://a''
        (run [SetEndpoint ''__proto__'',
              CallEvaluateFeatureFlag CodyCommandHints,
              SettleEvaluate 0 (Fulfilled (EvalError ''request failed''))] cachedProvider))
       = Some False
   \<and> featureFlags
        (run [SetEndpoint ''__proto__'',
              CallEvaluateFeatureFlag CodyCommandHints,
              SettleEvaluate 0 (Fulfilled (EvalError ''request failed''))] cachedProvider)
       = featureFlags cachedProvider
   \<and> objectPrototype
        (run [SetEndpoint ''__proto__'',
              CallEvaluateFeatureFlag CodyCommandHints,
              SettleEvaluate 0 (Fulfilled (EvalError ''request failed''))] cachedProvider)
       = [''cody-command-hints'' \<mapsto> False]
   \<and> fst (getFromCache CodyCommandHints ''https://a''
        (run [SetEndpoint ''__proto__'',
              CallEvaluateFeatureFlag CodyCommandHints,
              SettleEvaluate 0 (Fulfilled (EvalError ''request failed'')),
              SetEndpoint ''https://a'',
              CallSyncAuthStatus,
              SettleRefresh 0 (Fulfilled (Flags [''cody-pro-jetbrains'' \<mapsto> True]))]
           cachedProvider)) = Some False"
  by (simp add: eval_defs)

text \<open>
  Where the writing endpoint is an ordinary key the partition holds, in every state and
  for every other endpoint: the continuations of an evaluation and of a refresh started
  under \<open>E1\<close> leave what is read for any other endpoint \<open>E2\<close> as it was, and setting the
  endpoint changes nothing in the table.
\<close>

lemma endpoint_partition_ordinary:
  assumes "E1 \<noteq> E2" and "ordinaryKey E1"
  shows "fst (getFromCache F E2 (snd (evaluateFeatureFlag_resume E1 G reply s)))
           = fst (getFromCache F E2 s)
    \<and> fst (getFromCache F E2 (snd (refreshFeatureFlags_resume E1 reply' s)))
           = fst (getFromCache F E2 s)
    \<and> featureFlags (step (SetEndpoint e) s) = featureFlags s
    \<and> lastUpdated (step (SetEndpoint e) s) = lastUpdated s
    \<and> fst (getFromCache F E s') = fst (getFromCache F E (step (SetEndpoint e) s'))"
proof -
  from assms have p: "E1 \<noteq> ''__proto__''" and ne: "E2 \<noteq> E1"
    by (auto simp: ordinaryKey_def)
  have b: "lookupFlag (snd (refreshFeatureFlags_resume E1 reply' s)) E2 = lookupFlag s E2"
    by (cases reply')
       (simp_all add: refreshFeatureFlags_resume_def frames tableSet_reads_other(3)[OF ne p])
  have a: "lookupFlag (snd (evaluateFeatureFlag_resume E1 G reply s)) E2 = lookupFlag s E2"
  proof (cases reply)
    case (Rejected err)
    then show ?thesis by (simp add: evaluateFeatureFlag_resume_def)
  next
    case (Fulfilled val)
    show ?thesis
    proof (cases "truthy (tableGet s E1)")
      case False
      from tableSet_falsy[OF False] tableSet_reads_other(3)[OF ne p, of s]
      have "lookupFlag (s\<lparr>featureFlags := (featureFlags s)(E1 \<mapsto> r)\<rparr>) E2 = lookupFlag s E2"
        for r by simp
      with False Fulfilled show ?thesis
        by (simp add: evaluateFeatureFlag_resume_falsy)
    next
      case True
      show ?thesis
      proof (cases "featureFlags s E1")
        case (Some r)
        have "tableSet s E1 (r(flagValue G \<mapsto> storedValue val))
            = s\<lparr>featureFlags := (featureFlags s)(E1 \<mapsto> r(flagValue G \<mapsto> storedValue val))\<rparr>"
          using p by (simp add: tableSet_def)
        with tableSet_reads_other(3)[OF ne p, of s "r(flagValue G \<mapsto> storedValue val)"]
        have "lookupFlag (s\<lparr>featureFlags := (featureFlags s)
            (E1 \<mapsto> r(flagValue G \<mapsto> storedValue val))\<rparr>) E2 = lookupFlag s E2"
          by simp
        with True Fulfilled Some show ?thesis
          by (simp add: evaluateFeatureFlag_resume_truthy writeFlag_own)
      next
        case None
        with assms(2) have "tableGet s E1 = Undefined \<or> (\<exists>b. tableGet s E1 = Boolean b)"
          by (cases "tableGet s E1")
             (auto simp: ordinaryKey_def dest: tableGet_inherited_Record
                tableGet_inherited_ObjectPrototype tableGet_inherited_BuiltinFunction)
        with True have "tableGet s E1 = Boolean True" by (auto simp: truthy_def)
        with True Fulfilled show ?thesis
          by (simp add: evaluateFeatureFlag_resume_truthy writeFlag_truthy)
      qed
    qed
  qed
  show ?thesis
    using a b by (simp add: getFromCache_fst frames)
qed

subsection \<open>Errors of the API client\<close>

text \<open>
  C3 (amended). When the kill switch is off and the flag is not cached, an evaluation
  whose promise is fulfilled with null or with an \<open>Error\<close> value resolves to false, and
  \<open>syncAuthStatus\<close> resolves when the bulk fetch is fulfilled with an \<open>Error\<close> value.
  A rejected promise is not absorbed: when the single-flag evaluation rejects,
  \<open>evaluateFeatureFlag\<close> rejects with the same error, and when the bulk fetch rejects,
  so does \<open>syncAuthStatus\<close>. (The one state in which a fulfilled evaluation does not
  resolve is that in which \<open>this.featureFlags[endpoint]\<close> is an inherited \<open>true\<close>: the
  write then throws a TypeError, which is not caught either.)
\<close>

theorem evaluateFeatureFlag_errors:
  assumes "\<not> killSwitch s"
    and "lookupFlag s (endpoint s) (flagValue F) = None"
  shows "fst (evaluateFeatureFlag F (Fulfilled Null) s)
      = (if tableGet s (endpoint s) = Boolean True then Rejected typeError else Fulfilled False)
    \<and> fst (evaluateFeatureFlag F (Fulfilled (EvalError m)) s)
      = (if tableGet s (endpoint s) = Boolean True then Rejected typeError else Fulfilled False)
    \<and> fst (evaluateFeatureFlag F (Rejected e) s) = Rejected e
    \<and> fst (syncAuthStatus (Fulfilled (FetchError m)) s) = Fulfilled ()
    \<and> fst (syncAuthStatus (Rejected e) s) = Rejected e"
  by (simp add: evaluateFeatureFlag_uncached_fst[OF assms] storedValue_def
      syncAuthStatus_def method_defs)

theorem evaluateFeatureFlag_errors_witness:
  "\<not> killSwitch freshProvider
   \<and> lookupFlag freshProvider (endpoint freshProvider) (flagValue CodyProJetBrains) = None
   \<and> tableGet freshProvider (endpoint freshProvider) \<noteq> Boolean True
   \<and> fst (evaluateFeatureFlag CodyProJetBrains (Fulfilled Null) freshProvider) = Fulfilled False
   \<and> fst (evaluateFeatureFlag CodyProJetBrains (Fulfilled (EvalError ''HTTP 500''))
        freshProvider) = Fulfilled False
   \<and> fst (evaluateFeatureFlag CodyProJetBrains (Rejected ''network error'') freshProvider)
        = Rejected ''network error''
   \<and> fst (syncAuthStatus (Rejected ''network error'') freshProvider)
        = Rejected ''network error''"
proof -
  have k: "\<not> killSwitch freshProvider"
    by (simp add: eval_defs)
  have c: "lookupFlag freshProvider (endpoint freshProvider) (flagValue CodyProJetBrains) = None"
    by (simp add: eval_defs)
  have t: "tableGet freshProvider (endpoint freshProvider) \<noteq> Boolean True"
    by (simp add: eval_defs)
  show ?thesis
    using k c t evaluateFeatureFlag_errors [OF k c, of "''HTTP 500''" "''network error''"]
    by simp
qed

text \<open>
  The claim as stated fails: with the flag not cached, a rejection of the API client's
  promise comes out of \<open>evaluateFeatureFlag\<close> as a rejection, not as false, and a
  rejection of the bulk fetch comes out of \<open>syncAuthStatus\<close>.
\<close>

theorem evaluateFeatureFlag_rejection_counterexample:
  "fst (evaluateFeatureFlag CodyProJetBrains (Rejected ''network error'') freshProvider)
     = Rejected ''network error''
   \<and> fst (evaluateFeatureFlag CodyProJetBrains (Rejected ''network error'') freshProvider)
     \<noteq> Fulfilled False
   \<and> fst (syncAuthStatus (Rejected ''network error'') freshProvider)
     = Rejected ''network error''"
  by (simp add: evaluateFeatureFlag_def syncAuthStatus_def eval_defs)

subsection \<open>When an entry is known\<close>

text \<open>
  C4 (amended). For an endpoint \<open>E\<close> that is an ordinary key, in ordinary states:
  \<open>getFromCache\<close> returns undefined for a flag and \<open>E\<close> if and only if the entry has not
  been populated since the record of \<open>E\<close> was last replaced. An entry is populated when
  an evaluation of the flag started under \<open>E\<close> is fulfilled (a boolean is stored as it
  is, null and an \<open>Error\<close> value are stored as false) and when a bulk fetch started under
  \<open>E\<close> delivers the flag. The record of \<open>E\<close> is replaced when \<open>syncAuthStatus\<close> is called
  and when a bulk fetch started under \<open>E\<close> is fulfilled: a fetch that does not deliver
  the flag makes the entry undefined again, without any reset.
\<close>

theorem getFromCache_undefined_amended:
  assumes "ordinaryKey E"
  shows "(ordinaryState s \<and> list_all ordinaryEvent evs
      \<longrightarrow> (fst (getFromCache F E (run evs s)) = None)
          = (\<not> known E (flagValue F) evs s (fst (getFromCache F E s) \<noteq> None)))
   \<and> (ordinaryState s1 \<and> taskAt i s1 = Some (AwaitEvaluate E F)
      \<longrightarrow> fst (getFromCache F E (step (SettleEvaluate i (Fulfilled (Bool b))) s1)) = Some b
        \<and> fst (getFromCache F E (step (SettleEvaluate i (Fulfilled Null)) s1)) = Some False
        \<and> fst (getFromCache F E (step (SettleEvaluate i (Fulfilled (EvalError m))) s1))
            = Some False)
   \<and> (ordinaryState s2 \<and> taskAt j s2 = Some (AwaitRefresh E)
      \<longrightarrow> fst (getFromCache F E (step (SettleRefresh j (Fulfilled d)) s2))
            = flagsOf d (flagValue F))"
proof (intro conjI impI)
  assume a: "ordinaryState s \<and> list_all ordinaryEvent evs"
  from run_known[OF conjunct1[OF a] conjunct2[OF a] assms, of "flagValue F"]
  show "(fst (getFromCache F E (run evs s)) = None)
          = (\<not> known E (flagValue F) evs s (fst (getFromCache F E s) \<noteq> None))"
    unfolding getFromCache_fst by blast
next
  assume a: "ordinaryState s1 \<and> taskAt i s1 = Some (AwaitEvaluate E F)"
  note l = ordinary_step_lookup(1)[OF conjunct1[OF a] assms conjunct2[OF a]]
  from l[of "Bool b"]
  show "fst (getFromCache F E (step (SettleEvaluate i (Fulfilled (Bool b))) s1)) = Some b"
    by (simp add: getFromCache_fst storedValue_def del: step.simps)
  from l[of Null]
  show "fst (getFromCache F E (step (SettleEvaluate i (Fulfilled Null)) s1)) = Some False"
    by (simp add: getFromCache_fst storedValue_def del: step.simps)
  from l[of "EvalError m"]
  show "fst (getFromCache F E (step (SettleEvaluate i (Fulfilled (EvalError m))) s1))
      = Some False"
    by (simp add: getFromCache_fst storedValue_def del: step.simps)
next
  assume a: "ordinaryState s2 \<and> taskAt j s2 = Some (AwaitRefresh E)"
  from ordinary_step_lookup(2)[OF conjunct1[OF a] assms conjunct2[OF a], of d "flagValue F"]
  show "fst (getFromCache F E (step (SettleRefresh j (Fulfilled d)) s2))
      = flagsOf d (flagValue F)"
    by (simp add: getFromCache_fst del: step.simps)
qed

theorem getFromCache_undefined_amended_witness:
  "ordinaryKey ''https://a''
   \<and> ordinaryState freshProvider
   \<and> list_all ordinaryEvent
        [CallEvaluateFeatureFlag CodyProJetBrains,
         SettleEvaluate 1 (Fulfilled (Bool True)),
         SettleRefresh 0 (Fulfilled (Flags [''cody-command-hints'' \<mapsto> True])),
         SetEndpoint ''https://b'',
         CallEvaluateFeatureFlag CodyProJetBrains,
         SettleEvaluate 0 (Fulfilled (Bool True))]
   \<and> \<not> known ''https://a'' (flagValue CodyProJetBrains)
        [CallEvaluateFeatureFlag CodyProJetBrains,
         SettleEvaluate 1 (Fulfilled (Bool True)),
         SettleRefresh 0 (Fulfilled (Flags [''cody-command-hints'' \<mapsto> True])),
         SetEndpoint ''https://b'',
         CallEvaluateFeatureFlag CodyProJetBrains,
         SettleEvaluate 0 (Fulfilled (Bool True))] freshProvider
        (fst (getFromCache CodyProJetBrains ''https://a'' freshProvider) \<noteq> None)
   \<and> fst (getFromCache CodyProJetBrains ''https://a''
        (run [CallEvaluateFeatureFlag CodyProJetBrains,
              SettleEvaluate 1 (Fulfilled (Bool True)),
              SettleRefresh 0 (Fulfilled (Flags [''cody-command-hints'' \<mapsto> True])),
              SetEndpoint ''https://b'',
              CallEvaluateFeatureFlag CodyProJetBrains,
              SettleEvaluate 0 (Fulfilled (Bool True))] freshProvider)) = None
   \<and> ordinaryState (run [CallEvaluateFeatureFlag CodyProJetBrains] freshProvider)
   \<and> taskAt 1 (run [CallEvaluateFeatureFlag CodyProJetBrains] freshProvider)
        = Some (AwaitEvaluate ''https://a'' CodyProJetBrains)
   \<and> fst (getFromCache CodyProJetBrains ''https://a''
        (step (SettleEvaluate 1 (Fulfilled (Bool True)))
           (run [CallEvaluateFeatureFlag CodyProJetBrains] freshProvider))) = Some True
   \<and> fst (getFromCache CodyProJetBrains ''https://a''
        (step (SettleEvaluate 1 (Fulfilled Null))
           (run [CallEvaluateFeatureFlag CodyProJetBrains] freshProvider))) = Some False
   \<and> fst (getFromCache CodyProJetBrains ''https://a''
        (step (SettleEvaluate 1 (Fulfilled (EvalError ''HTTP 500'')))
           (run [CallEvaluateFeatureFlag CodyProJetBrains] freshProvider))) = Some False
   \<and> taskAt 0 (run [CallEvaluateFeatureFlag CodyProJetBrains] freshProvider)
        = Some (AwaitRefresh ''https://a'')
   \<and> fst (getFromCache CodyProJetBrains ''https://a''
        (step (SettleRefresh 0 (Fulfilled (Flags [''cody-pro-jetbrains'' \<mapsto> True])))
           (run [CallEvaluateFeatureFlag CodyProJetBrains] freshProvider))) = Some True"
proof -
  have k: "ordinaryKey ''https://a''"
    by (simp add: ordinary_defs)
  have o: "ordinaryState freshProvider"
    by (simp add: ordinary_defs eval_defs)
  have v: "list_all ordinaryEvent
        [CallEvaluateFeatureFlag CodyProJetBrains,
         SettleEvaluate 1 (Fulfilled (Bool True)),
         SettleRefresh 0 (Fulfilled (Flags [''cody-command-hints'' \<mapsto> True])),
         SetEndpoint ''https://b'',
         CallEvaluateFeatureFlag CodyProJetBrains,
         SettleEvaluate 0 (Fulfilled (Bool True))]"
    by (simp add: ordinary_defs)
  have n: "\<not> known ''https://a'' (flagValue CodyProJetBrains)
        [CallEvaluateFeatureFlag CodyProJetBrains,
         SettleEvaluate 1 (Fulfilled (Bool True)),
         SettleRefresh 0 (Fulfilled (Flags [''cody-command-hints'' \<mapsto> True])),
         SetEndpoint ''https://b'',
         CallEvaluateFeatureFlag CodyProJetBrains,
         SettleEvaluate 0 (Fulfilled (Bool True))] freshProvider
        (fst (getFromCache CodyProJetBrains ''https://a'' freshProvider) \<noteq> None)"
    by (simp add: eval_defs)
  have o1: "ordinaryState (run [CallEvaluateFeatureFlag CodyProJetBrains] freshProvider)"
    by (simp add: ordinary_defs eval_defs)
  have t1: "taskAt 1 (run [CallEvaluateFeatureFlag CodyProJetBrains] freshProvider)
        = Some (AwaitEvaluate ''https://a'' CodyProJetBrains)"
    by (simp add: eval_defs)
  have t0: "taskAt 0 (run [CallEvaluateFeatureFlag CodyProJetBrains] freshProvider)
        = Some (AwaitRefresh ''https://a'')"
    by (simp add: eval_defs)
  have f: "flagsOf (Flags [''cody-pro-jetbrains'' \<mapsto> True]) (flagValue CodyProJetBrains)
      = Some True"
    by (simp add: flagsOf_def)
  note inst = getFromCache_undefined_amended [OF k,
      where s = freshProvider and F = CodyProJetBrains
      and evs = "[CallEvaluateFeatureFlag CodyProJetBrains,
         SettleEvaluate 1 (Fulfilled (Bool True)),
         SettleRefresh 0 (Fulfilled (Flags [''cody-command-hints'' \<mapsto> True])),
         SetEndpoint ''https://b'',
         CallEvaluateFeatureFlag CodyProJetBrains,
         SettleEvaluate 0 (Fulfilled (Bool True))]"
      and ?s1.0 = "run [CallEvaluateFeatureFlag CodyProJetBrains] freshProvider" and i = 1
      and b = True and m = "''HTTP 500''"
      and ?s2.0 = "run [CallEvaluateFeatureFlag CodyProJetBrains] freshProvider" and j = 0
      and d = "Flags [''cody-pro-jetbrains'' \<mapsto> True]"]
  show ?thesis
    using k o v n o1 t1 t0 inst unfolding f by blast
qed

text \<open>
  The claim as stated fails. On a provider just constructed, the first evaluation of a
  flag starts a bulk fetch (the cache counts as expired) and a single-flag evaluation.
  The evaluation is fulfilled with true and populates the entry; the bulk fetch then
  lands with a record that does not hold the flag and replaces the endpoint's record.
  \<open>syncAuthStatus\<close> was never called, the entry was populated, and \<open>getFromCache\<close>
  returns undefined.
\<close>

theorem getFromCache_undefined_counterexample:
  "\<not> never (populates ''https://a'' (flagValue CodyProJetBrains))
        [CallEvaluateFeatureFlag CodyProJetBrains,
         SettleEvaluate 1 (Fulfilled (Bool True)),
         SettleRefresh 0 (Fulfilled (Flags Map.empty))] freshProvider
   \<and> CallSyncAuthStatus \<notin> set
        [CallEvaluateFeatureFlag CodyProJetBrains,
         SettleEvaluate 1 (Fulfilled (Bool True)),
         SettleRefresh 0 (Fulfilled (Flags Map.empty))]
   \<and> fst (getFromCache CodyProJetBrains ''https://a''
        (run [CallEvaluateFeatureFlag CodyProJetBrains,
              SettleEvaluate 1 (Fulfilled (Bool True))] freshProvider)) = Some True
   \<and> fst (getFromCache CodyProJetBrains ''https://a''
        (run [CallEvaluateFeatureFlag CodyProJetBrains,
              SettleEvaluate 1 (Fulfilled (Bool True)),
              SettleRefresh 0 (Fulfilled (Flags Map.empty))] freshProvider)) = None"
  by (simp add: eval_defs)

subsection \<open>A bulk fetch that fails\<close>

text \<open>
  C5 (amended). When the bulk fetch of a refresh is fulfilled with an \<open>Error\<close> value,
  the refresh resolves, the record of the endpoint it was started under is empty
  afterwards, and \<open>lastUpdated\<close> is the current time; a \<open>getFromCache\<close> at most one hour
  later then starts no further fetch. When the bulk fetch is rejected (the client
  throws), the refresh is rejected and nothing is assigned: the table and \<open>lastUpdated\<close>
  stay as they were.
\<close>

theorem refreshFeatureFlags_failure:
  "fst (refreshFeatureFlags_resume ep (Fulfilled (FetchError m)) s) = Fulfilled ()
   \<and> getExposedExperiments ep (snd (refreshFeatureFlags_resume ep (Fulfilled (FetchError m)) s))
        = Record Map.empty
   \<and> tableGet (snd (refreshFeatureFlags_resume ep (Fulfilled (FetchError m)) s)) ep
        = Record Map.empty
   \<and> (ep \<noteq> ''__proto__'' \<longrightarrow>
        featureFlags (snd (refreshFeatureFlags_resume ep (Fulfilled (FetchError m)) s)) ep
        = Some Map.empty)
   \<and> lastUpdated (snd (refreshFeatureFlags_resume ep (Fulfilled (FetchError m)) s)) = now s
   \<and> (int n \<le> ONE_HOUR \<longrightarrow>
        bulkFetches (snd (getFromCache F E
          (step (Tick n) (snd (refreshFeatureFlags_resume ep (Fulfilled (FetchError m)) s)))))
        = bulkFetches s
      \<and> suspended (snd (getFromCache F E
          (step (Tick n) (snd (refreshFeatureFlags_resume ep (Fulfilled (FetchError m)) s)))))
        = suspended s)
   \<and> refreshFeatureFlags_resume ep (Rejected e) s = (Rejected e, s)"
proof -
  have t: "tableGet (tableSet s ep Map.empty) ep = Record Map.empty"
    by (auto simp: tableSet_def tableGet_def inherited_def split: option.splits)
  have f: "ep \<noteq> ''__proto__'' \<longrightarrow> featureFlags (tableSet s ep Map.empty) ep = Some Map.empty"
    by (simp add: tableSet_def)
  have q: "requests (tableSet s ep Map.empty) = requests s"
    "suspended (tableSet s ep Map.empty) = suspended s"
    "now (tableSet s ep Map.empty) = now s"
    by (simp_all add: tableSet_def)
  show ?thesis
    using t f q
    by (simp add: refreshFeatureFlags_resume_def getExposedExperiments_def frames truthy_def
        getFromCache_def spawnRefresh_def bulkFetches_def)
qed

theorem refreshFeatureFlags_failure_witness:
  "''https://a'' \<noteq> ''__proto__''
   \<and> int 3600000 \<le> ONE_HOUR
   \<and> getExposedExperiments ''https://a'' cachedProvider
        = Record [''cody-pro-jetbrains'' \<mapsto> True]
   \<and> getExposedExperiments ''https://a''
        (snd (refreshFeatureFlags_resume ''https://a'' (Fulfilled (FetchError ''HTTP 500''))
          (step (Tick 3600001) cachedProvider))) = Record Map.empty
   \<and> featureFlags
        (snd (refreshFeatureFlags_resume ''https://a'' (Fulfilled (FetchError ''HTTP 500''))
          (step (Tick 3600001) cachedProvider))) ''https://a'' = Some Map.empty
   \<and> lastUpdated
        (snd (refreshFeatureFlags_resume ''https://a'' (Fulfilled (FetchError ''HTTP 500''))
          (step (Tick 3600001) cachedProvider))) = 1700003600001
   \<and> bulkFetches (snd (getFromCache CodyProJetBrains ''https://a''
        (step (Tick 3600000)
          (snd (refreshFeatureFlags_resume ''https://a'' (Fulfilled (FetchError ''HTTP 500''))
            (step (Tick 3600001) cachedProvider)))))) = 1"
proof -
  have p: "''https://a'' \<noteq> ''__proto__''" by simp
  have h: "int 3600000 \<le> ONE_HOUR"
    by (simp add: ONE_HOUR_def)
  have o: "getExposedExperiments ''https://a'' cachedProvider
      = Record [''cody-pro-jetbrains'' \<mapsto> True]"
    by (simp add: eval_defs)
  have t: "now (step (Tick 3600001) cachedProvider) = 1700003600001"
    by (simp add: eval_defs)
  have b: "bulkFetches (step (Tick 3600001) cachedProvider) = 1"
    by (simp add: bulkFetches_def eval_defs)
  show ?thesis
    using p h o t b
      refreshFeatureFlags_failure [of "''https://a''" "''HTTP 500''"
        "step (Tick 3600001) cachedProvider" 3600000 CodyProJetBrains "''https://a''"]
    by (simp del: step.simps)
qed

text \<open>
  The claim as stated fails when the fetch throws. The provider holds a flag for
  https://a and the hour has passed; the refresh is rejected. Afterwards the record of
  https://a still holds the stale flag, \<open>lastUpdated\<close> is still the time of the earlier
  refresh and not the current time, and the next \<open>getFromCache\<close> starts another fetch.
\<close>

theorem refreshFeatureFlags_rejected_counterexample:
  "getExposedExperiments ''https://a''
     (snd (refreshFeatureFlags (Rejected ''network error'')
       (step (Tick 3600001) cachedProvider))) = Record [''cody-pro-jetbrains'' \<mapsto> True]
   \<and> lastUpdated (snd (refreshFeatureFlags (Rejected ''network error'')
       (step (Tick 3600001) cachedProvider))) = 1700000000000
   \<and> now (snd (refreshFeatureFlags (Rejected ''network error'')
       (step (Tick 3600001) cachedProvider))) = 1700003600001
   \<and> bulkFetches (snd (refreshFeatureFlags (Rejected ''network error'')
       (step (Tick 3600001) cachedProvider))) = 2
   \<and> bulkFetches (snd (getFromCache CodyProJetBrains ''https://a''
       (snd (refreshFeatureFlags (Rejected ''network error'')
         (step (Tick 3600001) cachedProvider))))) = 3"
  by (simp add: bulkFetches_def refreshFeatureFlags_def eval_defs)

subsection \<open>How often a read starts a refresh\<close>

text \<open>
  C6 (amended). A call of \<open>getFromCache\<close> starts a bulk fetch exactly when more than one
  hour has passed since \<open>lastUpdated\<close>, and \<open>lastUpdated\<close> moves only when a fetch
  lands. So over any sequence of \<open>getFromCache\<close> calls and passing time, with nothing
  landing in between, the table and \<open>lastUpdated\<close> stay as they were; no fetch is started
  if at the end of the sequence at most one hour has passed since \<open>lastUpdated\<close>; and if
  more than one hour had passed at its beginning, every call starts a fetch of its own:
  the fetches are not coalesced.
\<close>

theorem getFromCache_refresh_window:
  assumes "list_all readOrTick evs"
  shows "featureFlags (run evs s) = featureFlags s
     \<and> lastUpdated (run evs s) = lastUpdated s
     \<and> (now (run evs s) - lastUpdated s \<le> ONE_HOUR \<longrightarrow>
          bulkFetches (run evs s) = bulkFetches s)
     \<and> (now s - lastUpdated s > ONE_HOUR \<longrightarrow>
          bulkFetches (run evs s) = bulkFetches s + length (filter isRead evs))"
  using run_readOrTick[OF assms, of s] by simp

theorem getFromCache_refresh_window_witness:
  "list_all readOrTick
     [CallGetFromCache CodyProJetBrains None, Tick 1000,
      CallGetFromCache CodyCommandHints (Some ''https://b'')]
   \<and> now (run [CallGetFromCache CodyProJetBrains None, Tick 1000,
               CallGetFromCache CodyCommandHints (Some ''https://b'')] cachedProvider)
        - lastUpdated cachedProvider \<le> ONE_HOUR
   \<and> bulkFetches (run [CallGetFromCache CodyProJetBrains None, Tick 1000,
               CallGetFromCache CodyCommandHints (Some ''https://b'')] cachedProvider)
        = bulkFetches cachedProvider
   \<and> now freshProvider - lastUpdated freshProvider > ONE_HOUR
   \<and> bulkFetches (run [CallGetFromCache CodyProJetBrains None, Tick 1000,
               CallGetFromCache CodyCommandHints (Some ''https://b'')] freshProvider)
        = bulkFetches freshProvider + 2"
proof -
  have h: "list_all readOrTick
     [CallGetFromCache CodyProJetBrains None, Tick 1000,
      CallGetFromCache CodyCommandHints (Some ''https://b'')]"
    by simp
  have a: "now (run [CallGetFromCache CodyProJetBrains None, Tick 1000,
               CallGetFromCache CodyCommandHints (Some ''https://b'')] cachedProvider)
        - lastUpdated cachedProvider \<le> ONE_HOUR"
    by (simp add: eval_defs)
  have b: "now freshProvider - lastUpdated freshProvider > ONE_HOUR"
    by (simp add: eval_defs)
  have c: "length (filter isRead [CallGetFromCache CodyProJetBrains None, Tick 1000,
      CallGetFromCache CodyCommandHints (Some ''https://b'')]) = 2"
    by simp
  show ?thesis
    using h a b c
      getFromCache_refresh_window [OF h, of cachedProvider]
      getFromCache_refresh_window [OF h, of freshProvider]
    by (simp del: run.simps)
qed

text \<open>
  The claim as stated fails. The provider was just constructed, so the cache counts as
  expired. Two calls of \<open>getFromCache\<close> follow each other at the same instant; nothing
  is written between them (the table, \<open>lastUpdated\<close> and the clock are unchanged). Each
  call starts a bulk fetch: two fetches, not at most one.
\<close>

theorem getFromCache_refresh_per_call_counterexample:
  "featureFlags (run [CallGetFromCache CodyProJetBrains None,
                      CallGetFromCache CodyProJetBrains None] freshProvider)
     = featureFlags freshProvider
   \<and> lastUpdated (run [CallGetFromCache CodyProJetBrains None,
                      CallGetFromCache CodyProJetBrains None] freshProvider)
     = lastUpdated freshProvider
   \<and> now (run [CallGetFromCache CodyProJetBrains None,
                      CallGetFromCache CodyProJetBrains None] freshProvider)
     = now freshProvider
   \<and> bulkFetches freshProvider = 0
   \<and> bulkFetches (run [CallGetFromCache CodyProJetBrains None,
                      CallGetFromCache CodyProJetBrains None] freshProvider) = 2
   \<and> \<not> bulkFetches (run [CallGetFromCache CodyProJetBrains None,
                      CallGetFromCache CodyProJetBrains None] freshProvider) \<le> 1"
  by (simp add: bulkFetches_def eval_defs)

subsection \<open>A refresh that lands after the reset\<close>

text \<open>
  C7 (amended). The result of a refresh is written back without any check when it lands:
  \<open>this.featureFlags[endpoint]\<close> is assigned the fetched flags, for the endpoint captured
  when the refresh started and whatever the current endpoint is by then. There is no
  comparison of the captured endpoint with the current one. For every captured endpoint
  but the string \<open>__proto__\<close> (whose assignment goes to the setter of
  \<open>Object.prototype\<close>) the assignment replaces the own record of that endpoint and leaves
  the record of every other endpoint as it is.
\<close>

theorem refreshFeatureFlags_resume_unguarded:
  "snd (refreshFeatureFlags_resume ep (Fulfilled d) s)
     = (tableSet s ep (flagsOf d))\<lparr>lastUpdated := now s\<rparr>
   \<and> (ep \<noteq> ''__proto__''
      \<longrightarrow> featureFlags (snd (refreshFeatureFlags_resume ep (Fulfilled d) s))
            = (featureFlags s)(ep \<mapsto> flagsOf d)
        \<and> tableGet (snd (refreshFeatureFlags_resume ep (Fulfilled d) s)) ep
            = Record (flagsOf d))
   \<and> (ep \<noteq> ''__proto__'' \<and> taskAt i s = Some (AwaitRefresh ep)
      \<longrightarrow> featureFlags (step (SettleRefresh i (Fulfilled d)) s)
            = (featureFlags s)(ep \<mapsto> flagsOf d))"
  by (cases d)
     (simp_all add: refreshFeatureFlags_resume_def flagsOf_def tableSet_def unsuspend_fields
        tableGet_def)

theorem refreshFeatureFlags_resume_unguarded_witness:
  "''https://a'' \<noteq> ''__proto__''
   \<and> taskAt 0 switchedProvider = Some (AwaitRefresh ''https://a'')
   \<and> endpoint switchedProvider = ''https://b''
   \<and> featureFlags
        (step (SettleRefresh 0 (Fulfilled (Flags [''cody-pro-jetbrains'' \<mapsto> True])))
           switchedProvider)
      = (featureFlags switchedProvider)
          (''https://a'' \<mapsto> flagsOf (Flags [''cody-pro-jetbrains'' \<mapsto> True]))
   \<and> tableGet
        (snd (refreshFeatureFlags_resume ''https://a''
           (Fulfilled (Flags [''cody-pro-jetbrains'' \<mapsto> True])) switchedProvider))
        ''https://a''
      = Record (flagsOf (Flags [''cody-pro-jetbrains'' \<mapsto> True]))"
proof -
  have p: "''https://a'' \<noteq> ''__proto__''" by simp
  have t: "taskAt 0 switchedProvider = Some (AwaitRefresh ''https://a'')"
    by (simp add: switchedProvider_def eval_defs)
  have e: "endpoint switchedProvider = ''https://b''"
    by (simp add: switchedProvider_def eval_defs)
  show ?thesis
    using p t e
      refreshFeatureFlags_resume_unguarded [of "''https://a''"
        "Flags [''cody-pro-jetbrains'' \<mapsto> True]" switchedProvider 0]
    by blast
qed

text \<open>
  The claim as stated fails. A refresh is started under https://a; the endpoint is
  switched to https://b and \<open>syncAuthStatus\<close> runs to its end, so the table holds nothing
  for https://a. The refresh started under https://a is still suspended. When it lands,
  its flags are written into the table under https://a, although the current endpoint
  is https://b.
\<close>

theorem stale_refresh_written_back_counterexample:
  "taskAt 0 switchedProvider = Some (AwaitRefresh ''https://a'')
   \<and> endpoint switchedProvider = ''https://b''
   \<and> featureFlags switchedProvider ''https://a'' = None
   \<and> getExposedExperiments ''https://a''
        (step (SettleRefresh 0 (Fulfilled (Flags [''cody-pro-jetbrains'' \<mapsto> True])))
           switchedProvider) = Record [''cody-pro-jetbrains'' \<mapsto> True]
   \<and> fst (getFromCache CodyProJetBrains ''https://a''
        (step (SettleRefresh 0 (Fulfilled (Flags [''cody-pro-jetbrains'' \<mapsto> True])))
           switchedProvider)) = Some True"
  by (simp add: switchedProvider_def eval_defs)

subsection \<open>The kill switch\<close>

text \<open>
  C8. When \<open>BENCHMARK_DISABLE_FEATURE_FLAGS\<close> is set (to a truthy string), evaluating any
  flag returns false, whatever the API client would have answered, and no call is made
  on the API client: the log of requests is the same after as before, and nothing waits
  for an answer.
\<close>

theorem evaluateFeatureFlag_kill_switch:
  assumes "killSwitch s"
  shows "fst (evaluateFeatureFlag flagName reply s) = Fulfilled False
    \<and> fst (evaluateFeatureFlag_call flagName s) = Inl False
    \<and> requests (snd (evaluateFeatureFlag flagName reply s)) = requests s
    \<and> requests (step (CallEvaluateFeatureFlag flagName) s) = requests s
    \<and> suspended (step (CallEvaluateFeatureFlag flagName) s) = suspended s"
  using assms
  by (simp add: evaluateFeatureFlag_def evaluateFeatureFlag_call_def wrapInActiveSpan_def)

theorem evaluateFeatureFlag_kill_switch_witness:
  "killSwitch (newProvider ''https://a'' 1700000000000 (Some ''true''))
   \<and> fst (evaluateFeatureFlag CodyProJetBrains (Fulfilled (Bool True))
        (newProvider ''https://a'' 1700000000000 (Some ''true''))) = Fulfilled False
   \<and> requests (snd (evaluateFeatureFlag CodyProJetBrains (Fulfilled (Bool True))
        (newProvider ''https://a'' 1700000000000 (Some ''true'')))) = []"
proof -
  have k: "killSwitch (newProvider ''https://a'' 1700000000000 (Some ''true''))"
    by (simp add: killSwitch_def newProvider_def)
  have r: "requests (newProvider ''https://a'' 1700000000000 (Some ''true'')) = []"
    by (simp add: newProvider_def)
  show ?thesis
    using k r evaluateFeatureFlag_kill_switch [OF k, of CodyProJetBrains "Fulfilled (Bool True)"]
    by simp
qed

text \<open>
  C10. When the kill switch is set, evaluating a flag leaves the whole state as it was:
  the table, \<open>lastUpdated\<close>, the log of requests and the suspended continuations. The
  cache is not consulted, so no refresh is started even when the cache has expired, and
  what \<open>getFromCache\<close> returns for any flag and endpoint is the same after the call as
  before (undefined stays undefined).
\<close>

theorem kill_switch_frame:
  assumes "killSwitch s"
  shows "snd (evaluateFeatureFlag flagName reply s) = s
    \<and> snd (evaluateFeatureFlag_call flagName s) = s
    \<and> step (CallEvaluateFeatureFlag flagName) s = s
    \<and> fst (getFromCache G ep (snd (evaluateFeatureFlag flagName reply s)))
        = fst (getFromCache G ep s)"
  using assms
  by (simp add: evaluateFeatureFlag_def evaluateFeatureFlag_call_def wrapInActiveSpan_def)

text \<open>The cache of the provider has expired, and still no refresh is started.\<close>

theorem kill_switch_frame_witness:
  "killSwitch (newProvider ''https://a'' 1700000000000 (Some ''1''))
   \<and> now (newProvider ''https://a'' 1700000000000 (Some ''1''))
       - lastUpdated (newProvider ''https://a'' 1700000000000 (Some ''1'')) > ONE_HOUR
   \<and> snd (evaluateFeatureFlag CodyCommandHints (Fulfilled (Bool True))
        (newProvider ''https://a'' 1700000000000 (Some ''1'')))
       = newProvider ''https://a'' 1700000000000 (Some ''1'')
   \<and> fst (getFromCache CodyCommandHints ''https://a''
        (newProvider ''https://a'' 1700000000000 (Some ''1''))) = None
   \<and> fst (getFromCache CodyCommandHints ''https://a''
        (snd (evaluateFeatureFlag CodyCommandHints (Fulfilled (Bool True))
          (newProvider ''https://a'' 1700000000000 (Some ''1''))))) = None"
proof -
  have k: "killSwitch (newProvider ''https://a'' 1700000000000 (Some ''1''))"
    by (simp add: killSwitch_def newProvider_def)
  have x: "now (newProvider ''https://a'' 1700000000000 (Some ''1''))
       - lastUpdated (newProvider ''https://a'' 1700000000000 (Some ''1'')) > ONE_HOUR"
    by (simp add: newProvider_def ONE_HOUR_def)
  have n: "fst (getFromCache CodyCommandHints ''https://a''
      (newProvider ''https://a'' 1700000000000 (Some ''1''))) = None"
    by (simp add: eval_defs)
  show ?thesis
    using k x n
      kill_switch_frame [OF k, of CodyCommandHints "Fulfilled (Bool True)"
        CodyCommandHints "''https://a''"]
    by simp
qed

subsection \<open>An evaluated value read back from the cache\<close>

text \<open>
  C9 (amended). When the single-flag evaluation started under endpoint \<open>E\<close> is fulfilled
  with a boolean (true in particular), \<open>evaluateFeatureFlag\<close> resolves to that boolean
  and stores it, so that \<open>getFromCache\<close> for that flag and \<open>E\<close> returns it right after;
  and, for an ordinary key \<open>E\<close>, it keeps returning it as long as \<open>syncAuthStatus\<close> is
  not called, no bulk fetch started under \<open>E\<close> is fulfilled (it replaces the record of
  \<open>E\<close> with what the server reports by then), and no other evaluation of the same flag
  started under \<open>E\<close> is fulfilled. Awaited from a state where the kill switch is off and
  the flag is not cached for the current endpoint, \<open>evaluateFeatureFlag\<close> resolves to
  the boolean the API client answers and the cache returns it for the current endpoint.
  (The one exception is the state in which \<open>this.featureFlags[E]\<close> is an inherited
  \<open>true\<close>, where the write throws a TypeError and the evaluation rejects.)
\<close>

theorem evaluateFeatureFlag_roundtrip:
  "fst (evaluateFeatureFlag_resume E F (Fulfilled (Bool b)) s)
     = (if tableGet s E = Boolean True then Rejected typeError else Fulfilled b)
   \<and> (tableGet s E \<noteq> Boolean True
      \<longrightarrow> fst (getFromCache F E (snd (evaluateFeatureFlag_resume E F (Fulfilled (Bool b)) s)))
            = Some b)
   \<and> (tableGet s E \<noteq> Boolean True \<and> ordinaryKey E
        \<and> never (overwrites E (flagValue F)) evs
             (snd (evaluateFeatureFlag_resume E F (Fulfilled (Bool b)) s))
      \<longrightarrow> fst (getFromCache F E
            (run evs (snd (evaluateFeatureFlag_resume E F (Fulfilled (Bool b)) s)))) = Some b)
   \<and> (\<not> killSwitch s' \<and> lookupFlag s' (endpoint s') (flagValue F) = None
        \<and> tableGet s' (endpoint s') \<noteq> Boolean True
      \<longrightarrow> fst (evaluateFeatureFlag F (Fulfilled (Bool b)) s') = Fulfilled b
        \<and> fst (getFromCache F (endpoint s')
              (snd (evaluateFeatureFlag F (Fulfilled (Bool b)) s'))) = Some b)"
proof (intro conjI impI)
  show "fst (evaluateFeatureFlag_resume E F (Fulfilled (Bool b)) s)
     = (if tableGet s E = Boolean True then Rejected typeError else Fulfilled b)"
    by (simp add: evaluateFeatureFlag_resume_fst storedValue_def)
next
  assume a: "tableGet s E \<noteq> Boolean True"
  obtain r t where rt: "evaluateFeatureFlag_resume E F (Fulfilled (Bool b)) s = (r, t)"
    by (cases "evaluateFeatureFlag_resume E F (Fulfilled (Bool b)) s")
  with a evaluateFeatureFlag_resume_fst[of E F "Bool b" s] have "r = Fulfilled b"
    by (simp add: storedValue_def)
  with rt evaluateFeatureFlag_resume_reads_back[of E F "Bool b" s b t]
  show "fst (getFromCache F E (snd (evaluateFeatureFlag_resume E F (Fulfilled (Bool b)) s)))
      = Some b"
    by (simp add: getFromCache_fst)
next
  assume a: "tableGet s E \<noteq> Boolean True \<and> ordinaryKey E
        \<and> never (overwrites E (flagValue F)) evs
             (snd (evaluateFeatureFlag_resume E F (Fulfilled (Bool b)) s))"
  then have "ownFlag (snd (evaluateFeatureFlag_resume E F (Fulfilled (Bool b)) s)) E (flagValue F)
      = Some b"
    using evaluateFeatureFlag_resume_ownFlag[of E s F "Bool b"] by (simp add: storedValue_def)
  with a have "ownFlag (run evs (snd (evaluateFeatureFlag_resume E F (Fulfilled (Bool b)) s)))
      E (flagValue F) = Some b"
    using run_keeps_ownFlag by blast
  then show "fst (getFromCache F E
      (run evs (snd (evaluateFeatureFlag_resume E F (Fulfilled (Bool b)) s)))) = Some b"
    by (simp add: getFromCache_fst lookupFlag_ownFlag)
next
  assume a: "\<not> killSwitch s' \<and> lookupFlag s' (endpoint s') (flagValue F) = None
        \<and> tableGet s' (endpoint s') \<noteq> Boolean True"
  then have k: "\<not> killSwitch s'" and c: "lookupFlag s' (endpoint s') (flagValue F) = None"
    and t: "tableGet s' (endpoint s') \<noteq> Boolean True" by simp_all
  from evaluateFeatureFlag_uncached_fst(1)[OF k c, of "Bool b"] t
  show fst: "fst (evaluateFeatureFlag F (Fulfilled (Bool b)) s') = Fulfilled b"
    by (simp add: storedValue_def)
  obtain r u where ru: "evaluateFeatureFlag F (Fulfilled (Bool b)) s' = (r, u)"
    by (cases "evaluateFeatureFlag F (Fulfilled (Bool b)) s'")
  with fst have r: "r = Fulfilled b" by simp
  from ru r evaluateFeatureFlag_uncached[OF k c, of "Fulfilled (Bool b)"]
    evaluateFeatureFlag_resume_reads_back[of "endpoint s'" F "Bool b" _ b u]
  show "fst (getFromCache F (endpoint s')
              (snd (evaluateFeatureFlag F (Fulfilled (Bool b)) s'))) = Some b"
    by (simp add: getFromCache_fst)
qed

theorem evaluateFeatureFlag_roundtrip_witness:
  "tableGet cachedProvider ''https://a'' \<noteq> Boolean True
   \<and> ordinaryKey ''https://a''
   \<and> never (overwrites ''https://a'' (flagValue CodyCommandHints))
      [SetEndpoint ''https://b'',
       Tick 3600001,
       CallGetFromCache CodyCommandHints (Some ''https://a''),
       CallEvaluateFeatureFlag CodyCommandHints,
       SettleEvaluate 2 (Fulfilled (Bool False)),
       SettleRefresh 0 (Fulfilled (Flags Map.empty))]
      (snd (evaluateFeatureFlag_resume ''https://a'' CodyCommandHints (Fulfilled (Bool True))
         cachedProvider))
   \<and> fst (evaluateFeatureFlag_resume ''https://a'' CodyCommandHints (Fulfilled (Bool True))
         cachedProvider) = Fulfilled True
   \<and> fst (getFromCache CodyCommandHints ''https://a''
        (snd (evaluateFeatureFlag_resume ''https://a'' CodyCommandHints
              (Fulfilled (Bool True)) cachedProvider))) = Some True
   \<and> fst (getFromCache CodyCommandHints ''https://a''
        (run [SetEndpoint ''https://b'',
              Tick 3600001,
              CallGetFromCache CodyCommandHints (Some ''https://a''),
              CallEvaluateFeatureFlag CodyCommandHints,
              SettleEvaluate 2 (Fulfilled (Bool False)),
              SettleRefresh 0 (Fulfilled (Flags Map.empty))]
           (snd (evaluateFeatureFlag_resume ''https://a'' CodyCommandHints
              (Fulfilled (Bool True)) cachedProvider)))) = Some True
   \<and> \<not> killSwitch cachedProvider
   \<and> lookupFlag cachedProvider (endpoint cachedProvider) (flagValue CodyCommandHints) = None
   \<and> tableGet cachedProvider (endpoint cachedProvider) \<noteq> Boolean True
   \<and> fst (evaluateFeatureFlag CodyCommandHints (Fulfilled (Bool True)) cachedProvider)
        = Fulfilled True
   \<and> fst (getFromCache CodyCommandHints (endpoint cachedProvider)
        (snd (evaluateFeatureFlag CodyCommandHints (Fulfilled (Bool True)) cachedProvider)))
        = Some True"
proof -
  have t: "tableGet cachedProvider ''https://a'' \<noteq> Boolean True"
    by (simp add: eval_defs)
  have o: "ordinaryKey ''https://a''"
    by (simp add: ordinary_defs)
  have q: "never (overwrites ''https://a'' (flagValue CodyCommandHints))
      [SetEndpoint ''https://b'',
       Tick 3600001,
       CallGetFromCache CodyCommandHints (Some ''https://a''),
       CallEvaluateFeatureFlag CodyCommandHints,
       SettleEvaluate 2 (Fulfilled (Bool False)),
       SettleRefresh 0 (Fulfilled (Flags Map.empty))]
      (snd (evaluateFeatureFlag_resume ''https://a'' CodyCommandHints (Fulfilled (Bool True))
         cachedProvider))"
    by (simp add: eval_defs)
  have k: "\<not> killSwitch cachedProvider"
    by (simp add: eval_defs)
  have c: "lookupFlag cachedProvider (endpoint cachedProvider)
        (flagValue CodyCommandHints) = None"
    by (simp add: eval_defs)
  have t': "tableGet cachedProvider (endpoint cachedProvider) \<noteq> Boolean True"
    by (simp add: eval_defs)
  show ?thesis
    using t o q k c t'
      evaluateFeatureFlag_roundtrip [of "''https://a''" CodyCommandHints True cachedProvider
        "[SetEndpoint ''https://b'',
          Tick 3600001,
          CallGetFromCache CodyCommandHints (Some ''https://a''),
          CallEvaluateFeatureFlag CodyCommandHints,
          SettleEvaluate 2 (Fulfilled (Bool False)),
          SettleRefresh 0 (Fulfilled (Flags Map.empty))]" cachedProvider]
    by (simp del: run.simps)
qed

text \<open>
  The claim as stated fails. The evaluation of the flag under https://a is fulfilled with
  true: \<open>evaluateFeatureFlag\<close> resolves to true and \<open>getFromCache\<close> returns true. More
  than an hour later a \<open>getFromCache\<close> starts the refresh, and the bulk fetch lands with
  the flag false. \<open>syncAuthStatus\<close> was never called, and \<open>getFromCache\<close> now returns
  false for the same flag and endpoint.
\<close>

theorem evaluateFeatureFlag_roundtrip_counterexample:
  "fst (evaluateFeatureFlag CodyCommandHints (Fulfilled (Bool True)) cachedProvider)
     = Fulfilled True
   \<and> fst (getFromCache CodyCommandHints ''https://a''
        (run [CallEvaluateFeatureFlag CodyCommandHints,
              SettleEvaluate 0 (Fulfilled (Bool True))] cachedProvider)) = Some True
   \<and> CallSyncAuthStatus \<notin> set
        [Tick 3600001,
         CallGetFromCache CodyCommandHints None,
         SettleRefresh 0 (Fulfilled (Flags [''cody-command-hints'' \<mapsto> False]))]
   \<and> fst (getFromCache CodyCommandHints ''https://a''
        (run [CallEvaluateFeatureFlag CodyCommandHints,
              SettleEvaluate 0 (Fulfilled (Bool True)),
              Tick 3600001,
              CallGetFromCache CodyCommandHints None,
              SettleRefresh 0 (Fulfilled (Flags [''cody-command-hints'' \<mapsto> False]))]
           cachedProvider)) = Some False"
  by (simp add: evaluateFeatureFlag_def eval_defs)

end
